theory Spec2Isabelle
  imports Main "HOL-Library.Sublist"
begin

section \<open>Shared data model\<close>

text \<open>
  \<^verbatim>\<open>packages/shared/src/types.ts\<close> declares the synchronised unit:
  \<^verbatim>\<open>interface DesignToken { id: string; name: string; type: string; value: any; description?: string }\<close>.
  The field \<^verbatim>\<open>value\<close> is \<^verbatim>\<open>any\<close>; the functions verified below only copy it,
  so a small tree of strings, numbers and objects stands for it.
\<close>

datatype js_value =
    VString string
  | VNumber int
  | VObject "(string \<times> js_value) list"

record DesignToken =
  token_id :: string
  token_name :: string
  token_type :: string
  token_value :: js_value
  token_description :: "string option"

section \<open>Token State Store: \<^verbatim>\<open>TokenHttpServer\<close> (packages/app/src/server.ts)\<close>

text \<open>
  \<^verbatim>\<open>interface TokenMessage { type: 'sync' | 'update' | 'create' | 'delete'; payload: any }\<close>.
  The four message kinds with the payload each one reads in \<^verbatim>\<open>handleTokenMessage\<close>
  (\<^verbatim>\<open>payload.tokens\<close>, \<^verbatim>\<open>payload.token\<close>, \<^verbatim>\<open>payload.tokenId\<close>), as
  \<^verbatim>\<open>types.ts\<close> declares them for each kind.
\<close>

datatype TokenMessage =
    SyncMsg "DesignToken list"
  | UpdateMsg DesignToken
  | CreateMsg DesignToken
  | DeleteMsg string

text \<open>
  The class has two private fields: the array \<^verbatim>\<open>tokens\<close> and the optional
  \<^verbatim>\<open>onTokenUpdateCallback\<close>. The callback is a collaborator; the model keeps whether
  one is registered and returns the array it is called with.
\<close>

record TokenHttpServer =
  srv_tokens :: "DesignToken list"
  srv_has_callback :: bool

definition new_TokenHttpServer :: TokenHttpServer where
  "new_TokenHttpServer = \<lparr> srv_tokens = [], srv_has_callback = False \<rparr>"

definition onTokenUpdate :: "TokenHttpServer \<Rightarrow> TokenHttpServer" where
  "onTokenUpdate s = s \<lparr> srv_has_callback := True \<rparr>"

text \<open>\<^verbatim>\<open>Array.prototype.findIndex\<close>: the index of the first element that satisfies the
  predicate, \<open>-1\<close> when there is none.\<close>

fun findIndex :: "('a \<Rightarrow> bool) \<Rightarrow> 'a list \<Rightarrow> int" where
  "findIndex p [] = - 1"
| "findIndex p (x # xs) =
     (if p x then 0
      else (let i = findIndex p xs in if i = - 1 then - 1 else i + 1))"

definition notify :: "TokenHttpServer \<Rightarrow> TokenHttpServer \<times> DesignToken list option" where
  "notify s = (s, if srv_has_callback s then Some (srv_tokens s) else None)"

fun handleTokenMessage ::
  "TokenHttpServer \<Rightarrow> TokenMessage \<Rightarrow> TokenHttpServer \<times> DesignToken list option" where
  "handleTokenMessage s (SyncMsg ts) = notify (s \<lparr> srv_tokens := ts \<rparr>)"
| "handleTokenMessage s (UpdateMsg t) =
     (let updateIndex = findIndex (\<lambda>x. token_id x = token_id t) (srv_tokens s)
      in if updateIndex \<noteq> - 1
         then notify (s \<lparr> srv_tokens := (srv_tokens s) [nat updateIndex := t] \<rparr>)
         else notify (s \<lparr> srv_tokens := srv_tokens s @ [t] \<rparr>))"
| "handleTokenMessage s (CreateMsg t) = notify (s \<lparr> srv_tokens := srv_tokens s @ [t] \<rparr>)"
| "handleTokenMessage s (DeleteMsg i) =
     notify (s \<lparr> srv_tokens := filter (\<lambda>t. token_id t \<noteq> i) (srv_tokens s) \<rparr>)"

definition getTokens :: "TokenHttpServer \<Rightarrow> DesignToken list" where
  "getTokens s = srv_tokens s"


section \<open>Relay: \<^verbatim>\<open>hybridCommunicationPlugin\<close> (the dev-server configuration)\<close>

subsection \<open>Wire objects\<close>

text \<open>
  The relay is untyped JavaScript: it parses a text into a JSON value and reads the
  properties \<^verbatim>\<open>type\<close> and \<^verbatim>\<open>payload.tokens\<close> of it; everything else is copied by
  the object spread. A JSON object is modelled by the properties that occur in the
  repository's messages, each optional (\<open>None\<close>: the property is absent, reading it
  gives \<^verbatim>\<open>undefined\<close>), with the types \<^verbatim>\<open>types.ts\<close> declares for them. The
  top-level property \<^verbatim>\<open>tokens\<close> is the one the relay's own \<^verbatim>\<open>initial_sync\<close> object
  carries.
\<close>

record payload =
  p_tokens :: "DesignToken list option"
  p_token :: "DesignToken option"
  p_tokenId :: "string option"

record message =
  m_type :: "string option"
  m_payload :: "payload option"
  m_source :: "string option"
  m_timestamp :: "int option"
  m_tokens :: "DesignToken list option"

text \<open>
  The result of \<^verbatim>\<open>JSON.parse\<close> on a received text: it throws a \<^verbatim>\<open>SyntaxError\<close>,
  or yields \<^verbatim>\<open>null\<close> (every property read on it throws a \<^verbatim>\<open>TypeError\<close>), or yields
  an object.
\<close>

datatype json_parse =
    ParseThrows
  | ParsedNull
  | Parsed message

subsection \<open>State, environment and effects\<close>

type_synonym client = nat

text \<open>
  The three variables the plugin closes over. A JavaScript \<^verbatim>\<open>Set\<close> keeps its
  elements in insertion order without duplicates: it is a list, \<^verbatim>\<open>add\<close> appends an
  element that is not there, \<^verbatim>\<open>delete\<close> removes it, \<^verbatim>\<open>size\<close> is the length.
\<close>

record relay =
  sseClients :: "client list"
  wsClients :: "client list"
  currentTokens :: "DesignToken list"

definition relay_init :: relay where
  "relay_init = \<lparr> sseClients = [], wsClients = [], currentTokens = [] \<rparr>"

definition set_add :: "'a \<Rightarrow> 'a list \<Rightarrow> 'a list" where
  "set_add x xs = (if x \<in> set xs then xs else xs @ [x])"

definition set_delete :: "'a \<Rightarrow> 'a list \<Rightarrow> 'a list" where
  "set_delete x xs = removeAll x xs"

text \<open>
  What the network does during one handler: the \<^verbatim>\<open>readyState\<close> of each socket
  (1 is OPEN), and whether \<^verbatim>\<open>res.write\<close> on an event-stream response or
  \<^verbatim>\<open>ws.send\<close> on a socket throws.
\<close>

record net =
  readyState :: "client \<Rightarrow> nat"
  write_throws :: "client \<Rightarrow> bool"
  send_throws :: "client \<Rightarrow> bool"

datatype http_body =
    Snapshot "DesignToken list" int nat nat nat
  | Ack nat nat nat
  | ErrorBody string
  | NoBody

text \<open>
  The calls a handler makes on its collaborators, in order: \<^verbatim>\<open>res.write\<close> of an
  event-stream frame \<^verbatim>\<open>data: <JSON>\n\n\<close> to a stream client, \<^verbatim>\<open>ws.send\<close> of the JSON
  text to a socket, the HTTP response of a request, and \<^verbatim>\<open>next()\<close>.
\<close>

datatype effect =
    SseWrite client message
  | WsSend client message
  | Respond nat http_body
  | Next

fun is_send :: "effect \<Rightarrow> bool" where
  "is_send (SseWrite c d) = True"
| "is_send (WsSend c d) = True"
| "is_send (Respond n b) = False"
| "is_send Next = False"

definition sends :: "effect list \<Rightarrow> effect list" where
  "sends out = filter is_send out"

subsection \<open>\<^verbatim>\<open>broadcastToAll\<close>\<close>

text \<open>
  The body of each \<^verbatim>\<open>forEach\<close> callback: the call is made; when it throws, the
  \<^verbatim>\<open>catch\<close> deletes that client from its set. A socket whose \<^verbatim>\<open>readyState\<close> is not 1
  is skipped. \<^verbatim>\<open>Set.prototype.forEach\<close> visits the elements in insertion order; the
  callback deletes none but the one it is visiting, so the loop runs over the elements
  the set had when it started.
\<close>

definition sse_each :: "net \<Rightarrow> message \<Rightarrow> client \<Rightarrow> relay \<times> effect list \<Rightarrow> relay \<times> effect list" where
  "sse_each n d c acc =
     (case acc of (st, out) \<Rightarrow>
        (if write_throws n c then st \<lparr> sseClients := set_delete c (sseClients st) \<rparr> else st,
         out @ [SseWrite c d]))"

definition ws_each :: "net \<Rightarrow> message \<Rightarrow> client \<Rightarrow> relay \<times> effect list \<Rightarrow> relay \<times> effect list" where
  "ws_each n d c acc =
     (case acc of (st, out) \<Rightarrow>
        (if readyState n c = 1
         then (if send_throws n c then st \<lparr> wsClients := set_delete c (wsClients st) \<rparr> else st,
               out @ [WsSend c d])
         else (st, out)))"

definition broadcastToAll :: "net \<Rightarrow> message \<Rightarrow> relay \<Rightarrow> relay \<times> effect list" where
  "broadcastToAll n d st =
     (let acc1 = fold (sse_each n d) (sseClients st) (st, [])
      in fold (ws_each n d) (wsClients (fst acc1)) acc1)"

subsection \<open>Connections\<close>

definition initial_sync :: "relay \<Rightarrow> int \<Rightarrow> message" where
  "initial_sync st now =
     \<lparr> m_type = Some ''initial_sync'', m_payload = None, m_source = None,
       m_timestamp = Some now, m_tokens = Some (currentTokens st) \<rparr>"

text \<open>\<^verbatim>\<open>wss.on('connection', (ws) => ...)\<close>: the socket is added, then sent the
  stored tokens when there are any. The socket is in the set before the send, so it is
  there also when the send throws.\<close>

definition ws_connection :: "int \<Rightarrow> client \<Rightarrow> relay \<Rightarrow> relay \<times> effect list" where
  "ws_connection now ws st =
     (let st1 = st \<lparr> wsClients := set_add ws (wsClients st) \<rparr>
      in (st1, if length (currentTokens st1) > 0 then [WsSend ws (initial_sync st1 now)] else []))"

text \<open>
  \<^verbatim>\<open>GET /api/stream\<close>: the stored tokens are written when there are any, then the
  response is added to the stream clients. The write stands outside any \<^verbatim>\<open>try\<close> and
  before \<^verbatim>\<open>sseClients.add(res)\<close>: when it throws, the handler ends there and the
  response is not added.
\<close>

definition sse_connection :: "net \<Rightarrow> int \<Rightarrow> client \<Rightarrow> relay \<Rightarrow> relay \<times> effect list" where
  "sse_connection n now res st =
     (if length (currentTokens st) > 0
      then (if write_throws n res
            then (st, [SseWrite res (initial_sync st now)])
            else (st \<lparr> sseClients := set_add res (sseClients st) \<rparr>,
                  [SseWrite res (initial_sync st now)]))
      else (st \<lparr> sseClients := set_add res (sseClients st) \<rparr>, []))"

definition ws_close :: "client \<Rightarrow> relay \<Rightarrow> relay" where
  "ws_close ws st = st \<lparr> wsClients := set_delete ws (wsClients st) \<rparr>"

definition sse_close :: "client \<Rightarrow> relay \<Rightarrow> relay" where
  "sse_close res st = st \<lparr> sseClients := set_delete res (sseClients st) \<rparr>"

subsection \<open>Inbound messages\<close>

text \<open>
  The statements inside the \<^verbatim>\<open>try\<close> of both inbound paths, up to the broadcast:
  \<^verbatim>\<open>
  const message = JSON.parse(...);
  if (message.type === 'sync' && message.payload.tokens) { currentTokens = message.payload.tokens; }
  broadcastToAll({ ...message, source: <src>, timestamp: Date.now() });
  \<close>
  \<open>None\<close> is a thrown exception: from \<^verbatim>\<open>JSON.parse\<close>, from \<^verbatim>\<open>message.type\<close> on
  \<^verbatim>\<open>null\<close>, or from \<^verbatim>\<open>message.payload.tokens\<close> when the type is \<^verbatim>\<open>'sync'\<close> and there
  is no payload. All three come before the first assignment. An array is truthy, also
  the empty one; an absent \<^verbatim>\<open>tokens\<close> is \<^verbatim>\<open>undefined\<close>, which is not.
\<close>

definition stamp :: "string \<Rightarrow> int \<Rightarrow> message \<Rightarrow> message" where
  "stamp src now m = m \<lparr> m_source := Some src, m_timestamp := Some now \<rparr>"

definition store_tokens :: "message \<Rightarrow> relay \<Rightarrow> relay option" where
  "store_tokens m st =
     (if m_type m = Some ''sync''
      then (case m_payload m of
              None \<Rightarrow> None
            | Some p \<Rightarrow>
                (case p_tokens p of
                   None \<Rightarrow> Some st
                 | Some ts \<Rightarrow> Some (st \<lparr> currentTokens := ts \<rparr>)))
      else Some st)"

definition relay_inbound ::
  "string \<Rightarrow> net \<Rightarrow> int \<Rightarrow> json_parse \<Rightarrow> relay \<Rightarrow> (relay \<times> effect list) option" where
  "relay_inbound src n now data st =
     (case data of
        ParseThrows \<Rightarrow> None
      | ParsedNull \<Rightarrow> None
      | Parsed m \<Rightarrow>
          (case store_tokens m st of
             None \<Rightarrow> None
           | Some st1 \<Rightarrow> Some (broadcastToAll n (stamp src now m) st1)))"

text \<open>\<^verbatim>\<open>ws.on('message', (data) => ...)\<close>: the \<^verbatim>\<open>catch\<close> only logs. The handler does
  not mention the socket \<^verbatim>\<open>ws\<close> it is registered on.\<close>

definition ws_message :: "net \<Rightarrow> int \<Rightarrow> client \<Rightarrow> json_parse \<Rightarrow> relay \<Rightarrow> relay \<times> effect list" where
  "ws_message n now ws data st =
     (case relay_inbound ''websocket'' n now data st of
        None \<Rightarrow> (st, [])
      | Some r \<Rightarrow> r)"

text \<open>\<^verbatim>\<open>/api/tokens\<close>: GET, POST (the body once it has ended), OPTIONS, anything else.\<close>

definition tokens_get :: "int \<Rightarrow> relay \<Rightarrow> relay \<times> effect list" where
  "tokens_get now st =
     (st, [Respond 200 (Snapshot (currentTokens st) now (length (sseClients st)) (length (wsClients st))
                          (length (sseClients st) + length (wsClients st)))])"

definition tokens_post :: "net \<Rightarrow> int \<Rightarrow> json_parse \<Rightarrow> relay \<Rightarrow> relay \<times> effect list" where
  "tokens_post n now body st =
     (case relay_inbound ''figma'' n now body st of
        None \<Rightarrow> (st, [Respond 400 (ErrorBody ''Invalid JSON'')])
      | Some r \<Rightarrow>
          (fst r, snd r @ [Respond 200 (Ack (length (sseClients (fst r))) (length (wsClients (fst r)))
                                         (length (sseClients (fst r)) + length (wsClients (fst r))))]))"

definition tokens_options :: "relay \<Rightarrow> relay \<times> effect list" where
  "tokens_options st = (st, [Respond 200 NoBody])"

subsection \<open>The relay as an event loop\<close>

datatype event =
    WsConnection client
  | WsMessage client json_parse
  | WsClose client
  | WsError client
  | StreamGet client
  | StreamClose client
  | StreamError client
  | StreamOther
  | TokensGet
  | TokensPost json_parse
  | TokensOptions
  | TokensOther

fun relay_step :: "net \<Rightarrow> int \<Rightarrow> event \<Rightarrow> relay \<Rightarrow> relay \<times> effect list" where
  "relay_step n now (WsConnection ws) st = ws_connection now ws st"
| "relay_step n now (WsMessage ws data) st = ws_message n now ws data st"
| "relay_step n now (WsClose ws) st = (ws_close ws st, [])"
| "relay_step n now (WsError ws) st = (ws_close ws st, [])"
| "relay_step n now (StreamGet res) st = sse_connection n now res st"
| "relay_step n now (StreamClose res) st = (sse_close res st, [])"
| "relay_step n now (StreamError res) st = (sse_close res st, [])"
| "relay_step n now StreamOther st = (st, [Next])"
| "relay_step n now TokensGet st = tokens_get now st"
| "relay_step n now (TokensPost body) st = tokens_post n now body st"
| "relay_step n now TokensOptions st = tokens_options st"
| "relay_step n now TokensOther st = (st, [Next])"



section \<open>Web application client: the \<^verbatim>\<open>useTokens\<close> hook\<close>

subsection \<open>Tokens of the application\<close>

text \<open>
  The application's token types (the module that declares \<^verbatim>\<open>TokenType\<close> and
  \<^verbatim>\<open>TokenWithId\<close> is only imported here; the thirteen types are those of the form's
  \<^verbatim>\<open>TOKEN_TYPES\<close> table, the fields those \<^verbatim>\<open>convertDesignToken\<close> writes).
\<close>

datatype TokenType =
    color | dimension | fontFamily | fontWeight | duration | cubicBezier | number
  | strokeStyle | border | transition | shadow | gradient | typography

text \<open>
  \<^verbatim>\<open>typeMapping[designToken.type] || 'dimension'\<close> reads a property of an object
  literal: one of its eight own keys, or else a member it inherits from
  \<^verbatim>\<open>Object.prototype\<close> (a function or object, which is truthy and so is returned as it
  is), or else \<^verbatim>\<open>undefined\<close>, replaced by \<^verbatim>\<open>'dimension'\<close>.
\<close>

datatype mapped_type =
    Mapped TokenType
  | PrototypeMember string

definition typeMapping :: "string \<Rightarrow> TokenType option" where
  "typeMapping k =
     (if k = ''color'' then Some color
      else if k = ''typography'' then Some typography
      else if k = ''dimension'' then Some dimension
      else if k = ''fontFamily'' then Some fontFamily
      else if k = ''fontWeight'' then Some fontWeight
      else if k = ''number'' then Some number
      else if k = ''string'' then Some fontFamily
      else if k = ''boolean'' then Some number
      else None)"

definition object_prototype_members :: "string list" where
  "object_prototype_members =
     [''constructor'', ''hasOwnProperty'', ''isPrototypeOf'', ''propertyIsEnumerable'',
      ''toLocaleString'', ''toString'', ''valueOf'', ''__defineGetter__'', ''__defineSetter__'',
      ''__lookupGetter__'', ''__lookupSetter__'', ''__proto__'']"

record TokenWithId =
  tw_id :: string
  tw_name :: string
  tw_type :: mapped_type
  tw_value :: js_value
  tw_description :: "string option"

definition convertDesignToken :: "DesignToken \<Rightarrow> TokenWithId" where
  "convertDesignToken designToken =
     \<lparr> tw_id = token_id designToken,
       tw_name = token_name designToken,
       tw_type = (case typeMapping (token_type designToken) of
                    Some t \<Rightarrow> Mapped t
                  | None \<Rightarrow>
                      (if token_type designToken \<in> set object_prototype_members
                       then PrototypeMember (token_type designToken)
                       else Mapped dimension)),
       tw_value = token_value designToken,
       tw_description = token_description designToken \<rparr>"

subsection \<open>String tests of the merge\<close>

text \<open>\<^verbatim>\<open>String.prototype.startsWith\<close> and \<^verbatim>\<open>String.prototype.includes\<close>, by
  comparison of code units from the left.\<close>

fun startsWith :: "string \<Rightarrow> string \<Rightarrow> bool" where
  "startsWith s [] = True"
| "startsWith [] (k # ks) = False"
| "startsWith (c # cs) (k # ks) = (c = k \<and> startsWith cs ks)"

fun includes_js :: "string \<Rightarrow> string \<Rightarrow> bool" where
  "includes_js [] k = startsWith [] k"
| "includes_js (c # cs) k = (startsWith (c # cs) k \<or> includes_js cs k)"

definition isFigmaToken :: "string list \<Rightarrow> TokenWithId \<Rightarrow> bool" where
  "isFigmaToken incomingTokenIds t =
     (startsWith (tw_id t) ''S:'' \<or>
      startsWith (tw_id t) ''T:'' \<or>
      startsWith (tw_id t) ''debug-'' \<or>
      includes_js (tw_id t) ''VariableID:'' \<or>
      tw_id t \<in> set incomingTokenIds)"

text \<open>The updater passed to \<^verbatim>\<open>setTokens\<close>: it is applied to the current token
  list.\<close>

definition mergeTokens :: "TokenWithId list \<Rightarrow> TokenWithId list \<Rightarrow> TokenWithId list" where
  "mergeTokens convertedTokens prevTokens =
     (let incomingTokenIds = remdups (map tw_id convertedTokens);
          manualTokens = filter (\<lambda>t. \<not> isFigmaToken incomingTokenIds t) prevTokens
      in manualTokens @ convertedTokens)"

subsection \<open>The hook's state and the socket handler\<close>

text \<open>
  The hook holds three state cells:
  \<^verbatim>\<open>const [tokens, setTokens] = useState([])\<close>,
  \<^verbatim>\<open>const [wsConnected, setWsConnected] = useState(false)\<close>,
  \<^verbatim>\<open>const [lastSyncTime, setLastSyncTime] = useState(0)\<close>.
\<close>

record hook_state =
  tokens :: "TokenWithId list"
  wsConnected :: bool
  lastSyncTime :: int

definition useTokens_initial :: hook_state where
  "useTokens_initial = \<lparr> tokens = [], wsConnected = False, lastSyncTime = 0 \<rparr>"

text \<open>
  \<^verbatim>\<open>lastSyncTime\<close> is a \<^verbatim>\<open>const\<close> of one call of the hook: each render binds it to the
  cell's value of that render. The socket and its handlers are created inside
  \<^verbatim>\<open>useEffect(() => { ... }, [convertDesignToken])\<close>. An effect runs after the first
  render and again only when a dependency changes; \<^verbatim>\<open>convertDesignToken\<close> is
  \<^verbatim>\<open>useCallback(..., [])\<close>, the same function in every render. So the effect runs
  once, and \<^verbatim>\<open>ws.onmessage\<close> (also after the reconnect that \<^verbatim>\<open>ws.onclose\<close> schedules,
  which calls the same \<^verbatim>\<open>connectWebSocket\<close>) reads the \<^verbatim>\<open>lastSyncTime\<close> of the render
  the effect ran in. \<^verbatim>\<open>setLastSyncTime(now)\<close> writes the cell, which later renders
  read; \<^verbatim>\<open>setTokens(prev => ...)\<close> is applied to the cell's current value.

  The handler's environment is therefore a value of its own beside the state.
\<close>

record handler_env =
  seen_lastSyncTime :: int

definition effect_env :: "hook_state \<Rightarrow> handler_env" where
  "effect_env rendered = \<lparr> seen_lastSyncTime = lastSyncTime rendered \<rparr>"

definition mounted_env :: handler_env where
  "mounted_env = effect_env useTokens_initial"

text \<open>The two \<^verbatim>\<open>console.log\<close> lines that tell a suppressed sync from an applied
  one (the latter with the number of converted tokens).\<close>

datatype client_log =
    SyncThrottled int
  | SyncApplied nat

text \<open>\<^verbatim>\<open>message.type === 'sync' && message.payload?.tokens\<close>.\<close>

definition sync_tokens :: "message \<Rightarrow> DesignToken list option" where
  "sync_tokens m =
     (if m_type m = Some ''sync''
      then (case m_payload m of None \<Rightarrow> None | Some p \<Rightarrow> p_tokens p)
      else None)"

definition ws_onmessage ::
  "handler_env \<Rightarrow> int \<Rightarrow> json_parse \<Rightarrow> hook_state \<Rightarrow> hook_state \<times> client_log list" where
  "ws_onmessage env now data st =
     (case data of
        ParseThrows \<Rightarrow> (st, [])
      | ParsedNull \<Rightarrow> (st, [])
      | Parsed m \<Rightarrow>
          (case sync_tokens m of
             None \<Rightarrow> (st, [])
           | Some figmaTokens \<Rightarrow>
               (let timeSinceLastSync = now - seen_lastSyncTime env
                in if timeSinceLastSync < 1000 then (st, [SyncThrottled timeSinceLastSync])
                   else (let convertedTokens = map convertDesignToken figmaTokens
                         in (st \<lparr> lastSyncTime := now,
                                  tokens := mergeTokens convertedTokens (tokens st) \<rparr>,
                             [SyncApplied (length convertedTokens)])))))"

text \<open>The messages of one mounted hook, each with the \<^verbatim>\<open>Date.now()\<close> of its
  arrival: the state is threaded, the handler's environment stays.\<close>

fun ws_onmessages ::
  "handler_env \<Rightarrow> (int \<times> json_parse) list \<Rightarrow> hook_state \<Rightarrow> hook_state \<times> client_log list" where
  "ws_onmessages env [] st = (st, [])"
| "ws_onmessages env ((now, data) # rest) st =
     (let r1 = ws_onmessage env now data st; r2 = ws_onmessages env rest (fst r1)
      in (fst r2, snd r1 @ snd r2))"

section \<open>Reconnection: \<^verbatim>\<open>WebSocketClient\<close> of the shared package\<close>

record WebSocketClient =
  reconnectAttempts :: nat

definition reconnectInterval :: nat where
  "reconnectInterval = 5000"

definition maxReconnectAttempts :: nat where
  "maxReconnectAttempts = 5"

definition new_WebSocketClient :: WebSocketClient where
  "new_WebSocketClient = \<lparr> reconnectAttempts = 0 \<rparr>"

text \<open>What a socket event makes the client do: settle the promise of \<^verbatim>\<open>connect\<close>,
  arm the timer that calls \<^verbatim>\<open>connect\<close> again, or log that it has given up.\<close>

datatype supervisor_effect =
    Resolve
  | Reject
  | ScheduleConnect nat
  | MaxAttemptsReached

definition attemptReconnect :: "WebSocketClient \<Rightarrow> WebSocketClient \<times> supervisor_effect list" where
  "attemptReconnect c =
     (if reconnectAttempts c < maxReconnectAttempts
      then (c \<lparr> reconnectAttempts := reconnectAttempts c + 1 \<rparr>, [ScheduleConnect reconnectInterval])
      else (c, [MaxAttemptsReached]))"

datatype socket_event = OnOpen | OnError | OnClose

fun on_socket_event :: "socket_event \<Rightarrow> WebSocketClient \<Rightarrow> WebSocketClient \<times> supervisor_effect list" where
  "on_socket_event OnOpen c = (c \<lparr> reconnectAttempts := 0 \<rparr>, [Resolve])"
| "on_socket_event OnError c = (c, [Reject])"
| "on_socket_event OnClose c = attemptReconnect c"

text \<open>\<open>closes k\<close>: \<open>k\<close> close events in a row, with the effects of the last one.\<close>

fun closes :: "nat \<Rightarrow> WebSocketClient \<Rightarrow> WebSocketClient \<times> supervisor_effect list" where
  "closes 0 c = (c, [])"
| "closes (Suc k) c = on_socket_event OnClose (fst (closes k c))"

section \<open>Plugin poll consumer: \<^verbatim>\<open>HybridClient\<close> (packages/figma-plugin/src/code.ts)\<close>

text \<open>The handlers registered with \<^verbatim>\<open>onMessage\<close> are collaborators; the client keeps
  them in an array, in the model by number.\<close>

record HybridClient =
  isConnected :: bool
  messageHandlers :: "nat list"

text \<open>
  What one poll tick meets: \<^verbatim>\<open>fetch\<close> rejects, or resolves to a response with its
  \<^verbatim>\<open>ok\<close> flag, whose \<^verbatim>\<open>json()\<close> rejects, or yields \<^verbatim>\<open>null\<close>, or yields an object with
  or without a \<^verbatim>\<open>tokens\<close> array.
\<close>

datatype poll_body =
    BodyThrows
  | BodyNull
  | BodyData "DesignToken list option"

datatype fetch_result =
    FetchRejects
  | Response bool poll_body

datatype plugin_effect =
    Dispatch nat TokenMessage
  | PostRealTimeUpdate "DesignToken list" int
  | LogNoUpdates
  | SetTimeout nat

text \<open>The part of \<^verbatim>\<open>pollForUpdates\<close> inside \<^verbatim>\<open>try\<close>; \<open>None\<close> is a thrown
  exception.\<close>

definition poll_try :: "HybridClient \<Rightarrow> int \<Rightarrow> fetch_result \<Rightarrow> plugin_effect list option" where
  "poll_try hc now r =
     (case r of
        FetchRejects \<Rightarrow> None
      | Response ok body \<Rightarrow>
          (if ok
           then (case body of
                   BodyThrows \<Rightarrow> None
                 | BodyNull \<Rightarrow> None
                 | BodyData None \<Rightarrow> Some []
                 | BodyData (Some ts) \<Rightarrow>
                     (if length ts > 0
                      then Some (map (\<lambda>handler. Dispatch handler (SyncMsg ts)) (messageHandlers hc)
                                 @ [PostRealTimeUpdate ts now])
                      else Some []))
           else Some []))"

definition pollForUpdates :: "HybridClient \<Rightarrow> int \<Rightarrow> fetch_result \<Rightarrow> plugin_effect list" where
  "pollForUpdates hc now r =
     (if \<not> isConnected hc then []
      else (case poll_try hc now r of
              None \<Rightarrow> [LogNoUpdates]
            | Some out \<Rightarrow> out)
           @ [SetTimeout 3000])"

fun is_dispatch :: "plugin_effect \<Rightarrow> bool" where
  "is_dispatch (Dispatch h m) = True"
| "is_dispatch (PostRealTimeUpdate ts now) = False"
| "is_dispatch LogNoUpdates = False"
| "is_dispatch (SetTimeout d) = False"

text \<open>The two events that open a connection.\<close>

fun is_connection :: "event \<Rightarrow> bool" where
  "is_connection (WsConnection ws) = True"
| "is_connection (StreamGet res) = True"
| "is_connection e = False"

section \<open>Sample inputs\<close>

text \<open>Concrete tokens, stores and relays on which the theorems below are instantiated.\<close>

definition tok :: "string \<Rightarrow> string \<Rightarrow> DesignToken" where
  "tok i v = \<lparr> token_id = i, token_name = ''Brand/Primary'', token_type = ''color'',
              token_value = VString v, token_description = None \<rparr>"

definition store3 :: TokenHttpServer where
  "store3 = \<lparr> srv_tokens = [tok ''a'' ''#111111'', tok ''b'' ''#222222'', tok ''c'' ''#333333''],
              srv_has_callback = True \<rparr>"

definition net_ok :: net where
  "net_ok = \<lparr> readyState = (\<lambda>c. 1), write_throws = (\<lambda>c. False), send_throws = (\<lambda>c. False) \<rparr>"

definition net_failing :: net where
  "net_failing = \<lparr> readyState = (\<lambda>c. if c = 2 then 3 else 1),
                   write_throws = (\<lambda>c. c = 1), send_throws = (\<lambda>c. c = 3) \<rparr>"

definition update_msg :: message where
  "update_msg = \<lparr> m_type = Some ''update'',
                  m_payload = Some \<lparr> p_tokens = None, p_token = Some (tok ''c1'' ''#0066CC''),
                                     p_tokenId = None \<rparr>,
                  m_source = None, m_timestamp = None, m_tokens = None \<rparr>"

definition sync_msg :: message where
  "sync_msg = \<lparr> m_type = Some ''sync'',
                m_payload = Some \<lparr> p_tokens = Some [tok ''c1'' ''#0066CC''], p_token = None,
                                   p_tokenId = None \<rparr>,
                m_source = None, m_timestamp = None, m_tokens = None \<rparr>"

definition relay_one_ws :: relay where
  "relay_one_ws = \<lparr> sseClients = [], wsClients = [1], currentTokens = [] \<rparr>"

definition relay_mixed :: relay where
  "relay_mixed = \<lparr> sseClients = [1, 5], wsClients = [2, 3, 4], currentTokens = [tok ''c1'' ''#0066CC''] \<rparr>"

definition relay_two :: relay where
  "relay_two = \<lparr> sseClients = [1], wsClients = [2], currentTokens = [] \<rparr>"

definition relay_synced :: relay where
  "relay_synced = \<lparr> sseClients = [], wsClients = [], currentTokens = [tok ''c1'' ''#0066CC''] \<rparr>"

definition tw :: "string \<Rightarrow> TokenWithId" where
  "tw i = \<lparr> tw_id = i, tw_name = ''spacing/base'', tw_type = Mapped dimension,
           tw_value = VString ''8px'', tw_description = None \<rparr>"

definition hook_with_tokens :: hook_state where
  "hook_with_tokens =
     \<lparr> tokens = [tw ''manual-1'', tw ''S:12'', tw ''T:7'', tw ''debug-color-1'',
                 tw ''xVariableID:3:4'', tw ''c1'', tw ''9f1c''],
       wsConnected = True, lastSyncTime = 0 \<rparr>"

definition plugin_client :: HybridClient where
  "plugin_client = \<lparr> isConnected = True, messageHandlers = [0] \<rparr>"

definition incoming_tokens :: "DesignToken list" where
  "incoming_tokens =
     [tok ''c1'' ''#0066CC'',
      \<lparr> token_id = ''S:9'', token_name = ''Font/Body'', token_type = ''string'',
        token_value = VString ''Inter'', token_description = Some ''body font'' \<rparr>,
      \<lparr> token_id = ''VariableID:1:2'', token_name = ''Layout/gap'', token_type = ''spacing'',
        token_value = VNumber 8, token_description = None \<rparr>,
      \<lparr> token_id = ''T:3'', token_name = ''Odd/one'', token_type = ''toString'',
        token_value = VObject [(''fontSize'', VString ''32px'')], token_description = None \<rparr>]"

definition sync_incoming :: message where
  "sync_incoming = \<lparr> m_type = Some ''sync'',
                     m_payload = Some \<lparr> p_tokens = Some incoming_tokens, p_token = None,
                                        p_tokenId = None \<rparr>,
                     m_source = None, m_timestamp = None, m_tokens = None \<rparr>"


section \<open>Verification\<close>

subsection \<open>Token State Store\<close>

lemma findIndex_ge: "- 1 \<le> findIndex p xs"
  by (induction xs) (auto simp: Let_def)

lemma findIndex_none: "findIndex p xs = - 1 \<longleftrightarrow> list_all (\<lambda>x. \<not> p x) xs"
proof (induction xs)
  case Nil
  then show ?case by simp
next
  case (Cons a xs)
  have "- 1 \<le> findIndex p xs" by (rule findIndex_ge)
  with Cons show ?case by (auto simp: Let_def)
qed

lemma findIndex_nonneg: "findIndex p xs \<noteq> - 1 \<Longrightarrow> 0 \<le> findIndex p xs"
  using findIndex_ge [of p xs] by linarith

lemma findIndex_split:
  "findIndex p xs \<noteq> - 1 \<Longrightarrow>
   \<exists>pre x post. xs = pre @ x # post \<and> list_all (\<lambda>y. \<not> p y) pre \<and> p x \<and>
      nat (findIndex p xs) = length pre"
proof (induction xs)
  case Nil
  then show ?case by simp
next
  case (Cons a xs)
  show ?case
  proof (cases "p a")
    case True
    then have "a # xs = [] @ a # xs \<and> list_all (\<lambda>y. \<not> p y) [] \<and> p a \<and>
      nat (findIndex p (a # xs)) = length ([]::'a list)" by simp
    then show ?thesis by blast
  next
    case False
    with Cons.prems have ne: "findIndex p xs \<noteq> - 1" by (auto simp: Let_def split: if_splits)
    from Cons.IH[OF ne] obtain pre x post where
      h: "xs = pre @ x # post" "list_all (\<lambda>y. \<not> p y) pre" "p x" "nat (findIndex p xs) = length pre"
      by blast
    from findIndex_nonneg[OF ne] have nn: "0 \<le> findIndex p xs" .
    have "a # xs = (a # pre) @ x # post \<and> list_all (\<lambda>y. \<not> p y) (a # pre) \<and> p x \<and>
      nat (findIndex p (a # xs)) = length (a # pre)"
      using h False ne nn by (simp add: Let_def nat_add_distrib)
    then show ?thesis by blast
  qed
qed

text \<open>
  C3. In every state of the store: a \<^verbatim>\<open>delete\<close> whose id no stored token has leaves the
  array as it is; an \<^verbatim>\<open>update\<close> whose token id no stored token has appends the token;
  an \<^verbatim>\<open>update\<close> whose id is stored replaces the first entry with that id by the
  token and keeps every entry before and after it; a \<^verbatim>\<open>delete\<close> keeps exactly the
  entries with another id, in their order.
\<close>

theorem handleTokenMessage_update_delete:
  "(list_all (\<lambda>x. token_id x \<noteq> i) (srv_tokens s) \<longrightarrow>
      srv_tokens (fst (handleTokenMessage s (DeleteMsg i))) = srv_tokens s)
   \<and> (list_all (\<lambda>x. token_id x \<noteq> token_id t) (srv_tokens s) \<longrightarrow>
      srv_tokens (fst (handleTokenMessage s (UpdateMsg t))) = srv_tokens s @ [t])
   \<and> (\<not> list_all (\<lambda>x. token_id x \<noteq> token_id t) (srv_tokens s) \<longrightarrow>
      (\<exists>pre x post. srv_tokens s = pre @ x # post
         \<and> list_all (\<lambda>y. token_id y \<noteq> token_id t) pre \<and> token_id x = token_id t
         \<and> srv_tokens (fst (handleTokenMessage s (UpdateMsg t))) = pre @ t # post))
   \<and> srv_tokens (fst (handleTokenMessage s (DeleteMsg i)))
        = filter (\<lambda>x. token_id x \<noteq> i) (srv_tokens s)"
proof (intro conjI impI)
  assume "list_all (\<lambda>x. token_id x \<noteq> i) (srv_tokens s)"
  then show "srv_tokens (fst (handleTokenMessage s (DeleteMsg i))) = srv_tokens s"
    by (simp add: notify_def list_all_iff)
next
  assume "list_all (\<lambda>x. token_id x \<noteq> token_id t) (srv_tokens s)"
  then have "findIndex (\<lambda>x. token_id x = token_id t) (srv_tokens s) = - 1"
    by (simp add: findIndex_none)
  then show "srv_tokens (fst (handleTokenMessage s (UpdateMsg t))) = srv_tokens s @ [t]"
    by (simp add: notify_def)
next
  assume "\<not> list_all (\<lambda>x. token_id x \<noteq> token_id t) (srv_tokens s)"
  then have ne: "findIndex (\<lambda>x. token_id x = token_id t) (srv_tokens s) \<noteq> - 1"
    by (simp add: findIndex_none)
  from findIndex_split[OF ne] obtain pre x post where
    h: "srv_tokens s = pre @ x # post" "list_all (\<lambda>y. token_id y \<noteq> token_id t) pre"
       "token_id x = token_id t"
       "nat (findIndex (\<lambda>x. token_id x = token_id t) (srv_tokens s)) = length pre"
    by blast
  have "srv_tokens (fst (handleTokenMessage s (UpdateMsg t))) = pre @ t # post"
    using ne h by (simp add: notify_def)
  with h show "\<exists>pre x post. srv_tokens s = pre @ x # post
         \<and> list_all (\<lambda>y. token_id y \<noteq> token_id t) pre \<and> token_id x = token_id t
         \<and> srv_tokens (fst (handleTokenMessage s (UpdateMsg t))) = pre @ t # post"
    by blast
next
  show "srv_tokens (fst (handleTokenMessage s (DeleteMsg i)))
        = filter (\<lambda>x. token_id x \<noteq> i) (srv_tokens s)"
    by (simp add: notify_def)
qed

theorem handleTokenMessage_update_delete_witness:
  "srv_tokens (fst (handleTokenMessage store3 (DeleteMsg ''zz''))) = srv_tokens store3
   \<and> srv_tokens (fst (handleTokenMessage store3 (UpdateMsg (tok ''zz'' ''#444444''))))
       = srv_tokens store3 @ [tok ''zz'' ''#444444'']
   \<and> srv_tokens (fst (handleTokenMessage store3 (UpdateMsg (tok ''b'' ''#444444''))))
       = [tok ''a'' ''#111111'', tok ''b'' ''#444444'', tok ''c'' ''#333333'']
   \<and> srv_tokens (fst (handleTokenMessage store3 (DeleteMsg ''b'')))
       = [tok ''a'' ''#111111'', tok ''c'' ''#333333'']"
  using handleTokenMessage_update_delete [of "''zz''" store3 "tok ''zz'' ''#444444''"]
        handleTokenMessage_update_delete [of "''b''" store3 "tok ''b'' ''#444444''"]
  by (simp add: store3_def tok_def notify_def)

subsection \<open>Broadcast\<close>

lemma sse_each_pair:
  "sse_each n d c (st, out) =
     (if write_throws n c then st \<lparr> sseClients := removeAll c (sseClients st) \<rparr> else st,
      out @ [SseWrite c d])"
  by (simp add: sse_each_def set_delete_def)

lemma ws_each_pair:
  "ws_each n d c (st, out) =
     (if readyState n c = 1 \<and> send_throws n c
      then st \<lparr> wsClients := removeAll c (wsClients st) \<rparr> else st,
      if readyState n c = 1 then out @ [WsSend c d] else out)"
  by (simp add: ws_each_def set_delete_def)

lemma filter_removeAll_failed:
  "P c \<Longrightarrow> filter (\<lambda>x. \<not> (x \<in> set cs \<and> P x)) (removeAll c xs)
           = filter (\<lambda>x. \<not> (x \<in> set (c # cs) \<and> P x)) xs"
  by (induction xs) auto

lemma filter_keep_passed:
  "\<not> P c \<Longrightarrow> filter (\<lambda>x. \<not> (x \<in> set cs \<and> P x)) xs
             = filter (\<lambda>x. \<not> (x \<in> set (c # cs) \<and> P x)) xs"
  by (intro filter_cong) auto

lemma filter_mem_self: "filter (\<lambda>x. \<not> (x \<in> set xs \<and> P x)) xs = filter (\<lambda>x. \<not> P x) xs"
  by (intro filter_cong) auto

lemma sse_fold:
  "fold (sse_each n d) cs (st, out) =
     (st \<lparr> sseClients := filter (\<lambda>x. \<not> (x \<in> set cs \<and> write_throws n x)) (sseClients st) \<rparr>,
      out @ map (\<lambda>c. SseWrite c d) cs)"
proof (induction cs arbitrary: st out)
  case Nil
  then show ?case by simp
next
  case (Cons c cs)
  have step: "fold (sse_each n d) (c # cs) (st, out)
     = fold (sse_each n d) cs
         (if write_throws n c then st \<lparr> sseClients := removeAll c (sseClients st) \<rparr> else st,
          out @ [SseWrite c d])"
    by (simp only: fold_simps sse_each_pair)
  show ?case
  proof (cases "write_throws n c")
    case True
    note filter_removeAll_failed [of "write_throws n" c cs "sseClients st", OF True]
    then show ?thesis
      unfolding step by (simp only: True if_True Cons.IH) simp
  next
    case False
    note filter_keep_passed [of "write_throws n" c cs "sseClients st", OF False]
    then show ?thesis
      unfolding step by (simp only: False if_False Cons.IH) simp
  qed
qed

lemma ws_fold:
  "fold (ws_each n d) cs (st, out) =
     (st \<lparr> wsClients := filter (\<lambda>x. \<not> (x \<in> set cs \<and> (readyState n x = 1 \<and> send_throws n x)))
                            (wsClients st) \<rparr>,
      out @ map (\<lambda>c. WsSend c d) (filter (\<lambda>c. readyState n c = 1) cs))"
proof (induction cs arbitrary: st out)
  case Nil
  then show ?case by simp
next
  case (Cons c cs)
  let ?P = "\<lambda>x. readyState n x = 1 \<and> send_throws n x"
  have step: "fold (ws_each n d) (c # cs) (st, out)
     = fold (ws_each n d) cs
         (if ?P c then st \<lparr> wsClients := removeAll c (wsClients st) \<rparr> else st,
          if readyState n c = 1 then out @ [WsSend c d] else out)"
    by (simp only: fold_simps ws_each_pair)
  show ?case
  proof (cases "?P c")
    case True
    note filter_removeAll_failed [of ?P c cs "wsClients st", OF True]
    then show ?thesis
      unfolding step using True by (simp only: if_True Cons.IH) simp
  next
    case False
    note filter_keep_passed [of ?P c cs "wsClients st", OF False]
    then show ?thesis
      unfolding step using False by (simp only: if_False Cons.IH) auto
  qed
qed

lemma broadcastToAll_eq:
  "broadcastToAll n d st =
     (st \<lparr> sseClients := filter (\<lambda>x. \<not> write_throws n x) (sseClients st),
           wsClients := filter (\<lambda>x. \<not> (readyState n x = 1 \<and> send_throws n x)) (wsClients st) \<rparr>,
      map (\<lambda>c. SseWrite c d) (sseClients st)
      @ map (\<lambda>c. WsSend c d) (filter (\<lambda>c. readyState n c = 1) (wsClients st)))"
proof -
  have 1: "fold (sse_each n d) (sseClients st) (st, []) =
     (st \<lparr> sseClients := filter (\<lambda>x. \<not> write_throws n x) (sseClients st) \<rparr>,
      map (\<lambda>c. SseWrite c d) (sseClients st))"
    by (simp only: sse_fold filter_mem_self append_Nil)
  have 2: "fold (ws_each n d) (wsClients st) (st', out) =
     (st' \<lparr> wsClients := filter (\<lambda>x. \<not> (readyState n x = 1 \<and> send_throws n x)) (wsClients st') \<rparr>,
      out @ map (\<lambda>c. WsSend c d) (filter (\<lambda>c. readyState n c = 1) (wsClients st)))"
    if "wsClients st' = wsClients st" for st' out
    using that ws_fold [of n d "wsClients st'" st' out]
    by (simp only: filter_mem_self)
  show ?thesis
    unfolding broadcastToAll_def Let_def 1
    by (simp only: fst_conv) (simp add: 2)
qed

lemma broadcastToAll_tokens: "currentTokens (fst (broadcastToAll n d st)) = currentTokens st"
  by (simp add: broadcastToAll_eq)

lemma sends_broadcast: "sends (snd (broadcastToAll n d st)) = snd (broadcastToAll n d st)"
  by (simp add: broadcastToAll_eq sends_def filter_id_conv)


text \<open>
  C8 (as amended). During a broadcast, whichever clients' sends throw: the call returns;
  every stream client is written the message and every socket whose \<^verbatim>\<open>readyState\<close> is
  OPEN is sent it, each once and in insertion order; exactly the clients whose send threw
  leave their set. A socket that is not OPEN is skipped: it is sent nothing and stays in
  the set.
\<close>

theorem broadcast_failure_isolated:
  "(\<forall>c \<in> set (sseClients st). SseWrite c d \<in> set (snd (broadcastToAll n d st)))
   \<and> (\<forall>c \<in> set (wsClients st). readyState n c = 1 \<longrightarrow> WsSend c d \<in> set (snd (broadcastToAll n d st)))
   \<and> sseClients (fst (broadcastToAll n d st)) = filter (\<lambda>c. \<not> write_throws n c) (sseClients st)
   \<and> wsClients (fst (broadcastToAll n d st))
       = filter (\<lambda>c. \<not> (readyState n c = 1 \<and> send_throws n c)) (wsClients st)
   \<and> snd (broadcastToAll n d st)
       = map (\<lambda>c. SseWrite c d) (sseClients st)
         @ map (\<lambda>c. WsSend c d) (filter (\<lambda>c. readyState n c = 1) (wsClients st))"
  by (simp add: broadcastToAll_eq)

theorem broadcast_failure_isolated_witness:
  "write_throws net_failing 1 \<and> send_throws net_failing 3
   \<and> SseWrite 5 update_msg \<in> set (snd (broadcastToAll net_failing update_msg relay_mixed))
   \<and> readyState net_failing 4 = 1
   \<and> WsSend 4 update_msg \<in> set (snd (broadcastToAll net_failing update_msg relay_mixed))
   \<and> sseClients (fst (broadcastToAll net_failing update_msg relay_mixed)) = [5]
   \<and> wsClients (fst (broadcastToAll net_failing update_msg relay_mixed)) = [2, 4]"
  using broadcast_failure_isolated [of relay_mixed update_msg net_failing]
  by (simp add: relay_mixed_def net_failing_def)

text \<open>The claim as stated fails where a socket is not OPEN: client 1's write throws,
  socket 2 (CLOSED) remains in its set and is sent nothing.\<close>

theorem broadcast_skips_closed_counterexample:
  "write_throws net_failing 1
   \<and> 2 \<in> set (wsClients (fst (broadcastToAll net_failing update_msg relay_two)))
   \<and> WsSend 2 update_msg \<notin> set (snd (broadcastToAll net_failing update_msg relay_two))"
  by (simp add: broadcastToAll_eq relay_two_def net_failing_def)

subsection \<open>Inbound messages\<close>

lemma store_tokens_clients:
  "store_tokens m st = Some st1 \<Longrightarrow> sseClients st1 = sseClients st \<and> wsClients st1 = wsClients st"
  by (auto simp: store_tokens_def split: if_splits option.splits)

lemma store_tokens_tokens:
  "store_tokens m st = Some st1 \<Longrightarrow>
     (currentTokens st1 = currentTokens st \<or>
      (\<exists>p ts. m_type m = Some ''sync'' \<and> m_payload m = Some p \<and> p_tokens p = Some ts
          \<and> currentTokens st1 = ts))"
  by (auto simp: store_tokens_def split: if_splits option.splits)

lemma store_tokens_other:
  "m_type m \<noteq> Some ''sync'' \<Longrightarrow> store_tokens m st = Some st"
  by (simp add: store_tokens_def)

lemma relay_inbound_None_iff:
  "relay_inbound src n now data st = None \<longleftrightarrow>
     (data = ParseThrows \<or> data = ParsedNull \<or> (\<exists>m. data = Parsed m \<and> store_tokens m st = None))"
  by (auto simp: relay_inbound_def split: json_parse.splits option.splits)

lemma relay_inbound_Some:
  "store_tokens m st = Some st1 \<Longrightarrow>
     relay_inbound src n now (Parsed m) st = Some (broadcastToAll n (stamp src now m) st1)"
  by (simp add: relay_inbound_def)

lemma relay_inbound_cases:
  "relay_inbound src n now data st = None \<or>
   (\<exists>m st1. data = Parsed m \<and> store_tokens m st = Some st1 \<and>
      relay_inbound src n now data st = Some (broadcastToAll n (stamp src now m) st1))"
  by (auto simp: relay_inbound_def split: json_parse.splits option.splits)

lemma length_broadcast:
  "length (snd (broadcastToAll n d st)) \<le> length (sseClients st) + length (wsClients st)"
proof -
  have "length (filter (\<lambda>c. readyState n c = 1) (wsClients st)) \<le> length (wsClients st)"
    by (rule length_filter_le)
  then show ?thesis by (simp add: broadcastToAll_eq)
qed

lemma sends_append_respond: "sends (out @ [Respond k b]) = sends out"
  by (simp add: sends_def)

lemma ws_message_sends:
  "sends (snd (ws_message n now ws data st)) = [] \<or>
   (\<exists>m st1. data = Parsed m \<and> store_tokens m st = Some st1 \<and>
      ws_message n now ws data st = broadcastToAll n (stamp ''websocket'' now m) st1)"
  using relay_inbound_cases [of "''websocket''" n now data st]
  by (auto simp: ws_message_def sends_def)

lemma tokens_post_sends:
  "sends (snd (tokens_post n now data st)) = [] \<or>
   (\<exists>m st1. data = Parsed m \<and> store_tokens m st = Some st1 \<and>
      fst (tokens_post n now data st) = fst (broadcastToAll n (stamp ''figma'' now m) st1) \<and>
      sends (snd (tokens_post n now data st)) = snd (broadcastToAll n (stamp ''figma'' now m) st1))"
  using relay_inbound_cases [of "''figma''" n now data st]
  by (auto simp: tokens_post_def sends_append_respond sends_broadcast) (simp add: sends_def)

lemma ws_message_length:
  "length (sends (snd (ws_message n now ws data st))) \<le> length (sseClients st) + length (wsClients st)"
proof -
  from ws_message_sends [of n now ws data st] show ?thesis
  proof
    assume "sends (snd (ws_message n now ws data st)) = []"
    then show ?thesis by simp
  next
    assume "\<exists>m st1. data = Parsed m \<and> store_tokens m st = Some st1 \<and>
      ws_message n now ws data st = broadcastToAll n (stamp ''websocket'' now m) st1"
    then obtain m st1 where h: "store_tokens m st = Some st1"
      "ws_message n now ws data st = broadcastToAll n (stamp ''websocket'' now m) st1" by blast
    from store_tokens_clients [OF h(1)] length_broadcast [of n "stamp ''websocket'' now m" st1]
    show ?thesis by (simp add: h(2) sends_broadcast)
  qed
qed

lemma tokens_post_length:
  "length (sends (snd (tokens_post n now data st))) \<le> length (sseClients st) + length (wsClients st)"
proof -
  from tokens_post_sends [of n now data st] show ?thesis
  proof
    assume "sends (snd (tokens_post n now data st)) = []"
    then show ?thesis by simp
  next
    assume "\<exists>m st1. data = Parsed m \<and> store_tokens m st = Some st1 \<and>
      fst (tokens_post n now data st) = fst (broadcastToAll n (stamp ''figma'' now m) st1) \<and>
      sends (snd (tokens_post n now data st)) = snd (broadcastToAll n (stamp ''figma'' now m) st1)"
    then obtain m st1 where h: "store_tokens m st = Some st1"
      "sends (snd (tokens_post n now data st)) = snd (broadcastToAll n (stamp ''figma'' now m) st1)" by blast
    from store_tokens_clients [OF h(1)] length_broadcast [of n "stamp ''figma'' now m" st1]
    show ?thesis by (simp add: h(2))
  qed
qed

lemma ws_message_relayed:
  assumes "store_tokens m st = Some st1"
  shows "ws_message n now ws (Parsed m) st = broadcastToAll n (stamp ''websocket'' now m) st1"
  using assms by (simp add: ws_message_def relay_inbound_def)

lemma tokens_post_relayed:
  assumes "store_tokens m st = Some st1"
  shows "tokens_post n now (Parsed m) st =
     (fst (broadcastToAll n (stamp ''figma'' now m) st1),
      snd (broadcastToAll n (stamp ''figma'' now m) st1)
      @ [Respond 200 (Ack (length (sseClients (fst (broadcastToAll n (stamp ''figma'' now m) st1))))
                          (length (wsClients (fst (broadcastToAll n (stamp ''figma'' now m) st1))))
                          (length (sseClients (fst (broadcastToAll n (stamp ''figma'' now m) st1)))
                           + length (wsClients (fst (broadcastToAll n (stamp ''figma'' now m) st1)))))])"
  using assms by (simp add: tokens_post_def relay_inbound_def)

lemma fanout_of:
  "snd (broadcastToAll n d st1)
     = map (\<lambda>c. SseWrite c d) (sseClients st1)
       @ map (\<lambda>c. WsSend c d) (filter (\<lambda>c. readyState n c = 1) (wsClients st1))"
  by (simp add: broadcastToAll_eq)

text \<open>
  C1 (as amended). An inbound message, from a socket or from a POST, results in at most
  N+M sends, N being the sockets and M the stream clients connected. When the message is
  relayed (it parsed to an object and no property read threw), the stamped message goes
  to every stream client and to every socket whose \<^verbatim>\<open>readyState\<close> is OPEN, the
  originating socket among them: N+M sends for either origin when every socket is OPEN.
\<close>

theorem inbound_fanout:
  "length (sends (snd (ws_message n now ws data st))) \<le> length (sseClients st) + length (wsClients st)
   \<and> length (sends (snd (tokens_post n now data st))) \<le> length (sseClients st) + length (wsClients st)
   \<and> (data = Parsed m \<and> store_tokens m st \<noteq> None \<longrightarrow>
        sends (snd (ws_message n now ws data st))
          = map (\<lambda>c. SseWrite c (stamp ''websocket'' now m)) (sseClients st)
            @ map (\<lambda>c. WsSend c (stamp ''websocket'' now m))
                (filter (\<lambda>c. readyState n c = 1) (wsClients st))
        \<and> sends (snd (tokens_post n now data st))
          = map (\<lambda>c. SseWrite c (stamp ''figma'' now m)) (sseClients st)
            @ map (\<lambda>c. WsSend c (stamp ''figma'' now m))
                (filter (\<lambda>c. readyState n c = 1) (wsClients st))
        \<and> (list_all (\<lambda>c. readyState n c = 1) (wsClients st) \<longrightarrow>
             length (sends (snd (ws_message n now ws data st)))
               = length (sseClients st) + length (wsClients st)
             \<and> length (sends (snd (tokens_post n now data st)))
               = length (sseClients st) + length (wsClients st))
        \<and> (ws \<in> set (wsClients st) \<and> readyState n ws = 1 \<longrightarrow>
             WsSend ws (stamp ''websocket'' now m) \<in> set (snd (ws_message n now ws data st))))"
proof (intro conjI impI)
  show "length (sends (snd (ws_message n now ws data st))) \<le> length (sseClients st) + length (wsClients st)"
    by (rule ws_message_length)
  show "length (sends (snd (tokens_post n now data st))) \<le> length (sseClients st) + length (wsClients st)"
    by (rule tokens_post_length)
next
  assume a: "data = Parsed m \<and> store_tokens m st \<noteq> None"
  then obtain st1 where s: "store_tokens m st = Some st1" by blast
  note c = store_tokens_clients [OF s]
  from a have d: "data = Parsed m" by simp
  show w: "sends (snd (ws_message n now ws data st))
          = map (\<lambda>c. SseWrite c (stamp ''websocket'' now m)) (sseClients st)
            @ map (\<lambda>c. WsSend c (stamp ''websocket'' now m))
                (filter (\<lambda>c. readyState n c = 1) (wsClients st))"
  proof -
    have "sends (snd (ws_message n now ws data st)) = snd (broadcastToAll n (stamp ''websocket'' now m) st1)"
      by (simp only: d ws_message_relayed [OF s] sends_broadcast)
    then show ?thesis by (simp only: fanout_of c)
  qed
  show p: "sends (snd (tokens_post n now data st))
          = map (\<lambda>c. SseWrite c (stamp ''figma'' now m)) (sseClients st)
            @ map (\<lambda>c. WsSend c (stamp ''figma'' now m))
                (filter (\<lambda>c. readyState n c = 1) (wsClients st))"
  proof -
    have "sends (snd (tokens_post n now data st)) = snd (broadcastToAll n (stamp ''figma'' now m) st1)"
      by (simp only: d tokens_post_relayed [OF s] snd_conv sends_append_respond sends_broadcast)
    then show ?thesis by (simp only: fanout_of c)
  qed
  {
    assume "list_all (\<lambda>c. readyState n c = 1) (wsClients st)"
    then have f: "filter (\<lambda>c. readyState n c = 1) (wsClients st) = wsClients st"
      by (simp add: list_all_iff)
    show "length (sends (snd (ws_message n now ws data st)))
               = length (sseClients st) + length (wsClients st)"
      unfolding w f by simp
    show "length (sends (snd (tokens_post n now data st)))
               = length (sseClients st) + length (wsClients st)"
      unfolding p f by simp
  }
  {
    assume "ws \<in> set (wsClients st) \<and> readyState n ws = 1"
    then show "WsSend ws (stamp ''websocket'' now m) \<in> set (snd (ws_message n now ws data st))"
      unfolding d ws_message_relayed [OF s] fanout_of by (simp add: c)
  }
qed

theorem inbound_fanout_witness:
  "store_tokens update_msg relay_mixed = Some relay_mixed
   \<and> list_all (\<lambda>c. readyState net_ok c = 1) (wsClients relay_mixed)
   \<and> length (sends (snd (ws_message net_ok 5 2 (Parsed update_msg) relay_mixed))) = 5
   \<and> length (sends (snd (tokens_post net_ok 5 (Parsed update_msg) relay_mixed))) = 5
   \<and> length (sseClients relay_mixed) + length (wsClients relay_mixed) = 5
   \<and> WsSend 2 (stamp ''websocket'' 5 update_msg)
        \<in> set (snd (ws_message net_ok 5 2 (Parsed update_msg) relay_mixed))"
  using inbound_fanout [of net_ok 5 2 "Parsed update_msg" relay_mixed update_msg]
  by (simp add: relay_mixed_def net_ok_def store_tokens_def update_msg_def)

text \<open>The claim as stated excludes the originating socket. With socket 1 the only
  client, its own \<^verbatim>\<open>update\<close> is sent back to it: one send, where N+M\<open>-\<close>1 is 0.\<close>

theorem push_origin_echo_counterexample:
  "snd (ws_message net_ok 5 1 (Parsed update_msg) relay_one_ws)
     = [WsSend 1 (stamp ''websocket'' 5 update_msg)]
   \<and> \<not> length (sends (snd (ws_message net_ok 5 1 (Parsed update_msg) relay_one_ws)))
        \<le> length (wsClients relay_one_ws) + length (sseClients relay_one_ws) - 1"
  by (simp add: ws_message_def relay_inbound_def store_tokens_def update_msg_def
      broadcastToAll_eq relay_one_ws_def net_ok_def sends_def)

lemma fst_broadcast:
  "fst (broadcastToAll n d st) =
     st \<lparr> sseClients := filter (\<lambda>x. \<not> write_throws n x) (sseClients st),
          wsClients := filter (\<lambda>x. \<not> (readyState n x = 1 \<and> send_throws n x)) (wsClients st) \<rparr>"
  by (simp add: broadcastToAll_eq)

lemma ws_message_tokens_changed:
  assumes "currentTokens (fst (ws_message n now ws data st)) \<noteq> currentTokens st"
  shows "\<exists>m p ts. data = Parsed m \<and> m_type m = Some ''sync'' \<and> m_payload m = Some p \<and> p_tokens p = Some ts"
proof -
  from relay_inbound_cases [of "''websocket''" n now data st] show ?thesis
  proof
    assume "relay_inbound ''websocket'' n now data st = None"
    with assms show ?thesis by (simp add: ws_message_def)
  next
    assume "\<exists>m st1. data = Parsed m \<and> store_tokens m st = Some st1 \<and>
      relay_inbound ''websocket'' n now data st = Some (broadcastToAll n (stamp ''websocket'' now m) st1)"
    then obtain m st1 where h: "data = Parsed m" "store_tokens m st = Some st1"
      "relay_inbound ''websocket'' n now data st = Some (broadcastToAll n (stamp ''websocket'' now m) st1)"
      by blast
    from assms h(3) have "currentTokens st1 \<noteq> currentTokens st"
      by (simp add: ws_message_def broadcastToAll_tokens)
    with store_tokens_tokens [OF h(2)] h(1) show ?thesis by blast
  qed
qed

lemma tokens_post_tokens_changed:
  assumes "currentTokens (fst (tokens_post n now data st)) \<noteq> currentTokens st"
  shows "\<exists>m p ts. data = Parsed m \<and> m_type m = Some ''sync'' \<and> m_payload m = Some p \<and> p_tokens p = Some ts"
proof -
  from relay_inbound_cases [of "''figma''" n now data st] show ?thesis
  proof
    assume "relay_inbound ''figma'' n now data st = None"
    with assms show ?thesis by (simp add: tokens_post_def)
  next
    assume "\<exists>m st1. data = Parsed m \<and> store_tokens m st = Some st1 \<and>
      relay_inbound ''figma'' n now data st = Some (broadcastToAll n (stamp ''figma'' now m) st1)"
    then obtain m st1 where h: "data = Parsed m" "store_tokens m st = Some st1"
      "relay_inbound ''figma'' n now data st = Some (broadcastToAll n (stamp ''figma'' now m) st1)"
      by blast
    from assms h(3) have "currentTokens st1 \<noteq> currentTokens st"
      by (simp add: tokens_post_def broadcastToAll_tokens)
    with store_tokens_tokens [OF h(2)] h(1) show ?thesis by blast
  qed
qed

lemma store_tokens_sync:
  "m_type m = Some ''sync'' \<Longrightarrow> m_payload m = Some p \<Longrightarrow> p_tokens p = Some ts \<Longrightarrow>
     store_tokens m st = Some (st \<lparr> currentTokens := ts \<rparr>)"
  by (simp add: store_tokens_def)

lemma not_sync:
  "m_type m = Some ''update'' \<or> m_type m = Some ''create'' \<or> m_type m = Some ''delete'' \<Longrightarrow>
     m_type m \<noteq> Some ''sync''"
  by auto

text \<open>
  C9 (as amended). For every inbound message, from a socket or by POST: \<^verbatim>\<open>currentTokens\<close>
  changes only when the message has type \<^verbatim>\<open>sync\<close> and carries \<^verbatim>\<open>payload.tokens\<close>,
  which then becomes its value. A message of type \<^verbatim>\<open>update\<close>, \<^verbatim>\<open>create\<close> or
  \<^verbatim>\<open>delete\<close> is stamped and broadcast and leaves \<^verbatim>\<open>currentTokens\<close> as it is; of the
  two client sets it removes exactly the clients whose send threw during that broadcast,
  so that the relay state is unchanged when no send throws; a later GET returns the
  stored tokens of before.
\<close>

theorem inbound_frame:
  "(currentTokens (fst (ws_message n now ws data st)) \<noteq> currentTokens st
      \<or> currentTokens (fst (tokens_post n now data st)) \<noteq> currentTokens st \<longrightarrow>
      (\<exists>m p ts. data = Parsed m \<and> m_type m = Some ''sync'' \<and> m_payload m = Some p
          \<and> p_tokens p = Some ts))
   \<and> (data = Parsed m \<and> m_type m = Some ''sync'' \<and> m_payload m = Some p \<and> p_tokens p = Some ts \<longrightarrow>
        currentTokens (fst (ws_message n now ws data st)) = ts
        \<and> currentTokens (fst (tokens_post n now data st)) = ts)
   \<and> (data = Parsed m
        \<and> (m_type m = Some ''update'' \<or> m_type m = Some ''create'' \<or> m_type m = Some ''delete'') \<longrightarrow>
        ws_message n now ws data st = broadcastToAll n (stamp ''websocket'' now m) st
        \<and> fst (tokens_post n now data st) = fst (broadcastToAll n (stamp ''figma'' now m) st)
        \<and> sends (snd (tokens_post n now data st)) = snd (broadcastToAll n (stamp ''figma'' now m) st)
        \<and> currentTokens (fst (ws_message n now ws data st)) = currentTokens st
        \<and> currentTokens (fst (tokens_post n now data st)) = currentTokens st
        \<and> sseClients (fst (ws_message n now ws data st))
            = filter (\<lambda>c. \<not> write_throws n c) (sseClients st)
        \<and> wsClients (fst (ws_message n now ws data st))
            = filter (\<lambda>c. \<not> (readyState n c = 1 \<and> send_throws n c)) (wsClients st)
        \<and> sseClients (fst (tokens_post n now data st))
            = filter (\<lambda>c. \<not> write_throws n c) (sseClients st)
        \<and> wsClients (fst (tokens_post n now data st))
            = filter (\<lambda>c. \<not> (readyState n c = 1 \<and> send_throws n c)) (wsClients st)
        \<and> (list_all (\<lambda>c. \<not> write_throws n c) (sseClients st)
             \<and> list_all (\<lambda>c. \<not> (readyState n c = 1 \<and> send_throws n c)) (wsClients st) \<longrightarrow>
             fst (ws_message n now ws data st) = st \<and> fst (tokens_post n now data st) = st)
        \<and> (\<exists>t a b c. snd (tokens_get later (fst (ws_message n now ws data st)))
                       = [Respond 200 (Snapshot (currentTokens st) t a b c)])
        \<and> (\<exists>t a b c. snd (tokens_get later (fst (tokens_post n now data st)))
                       = [Respond 200 (Snapshot (currentTokens st) t a b c)]))"
proof (intro conjI impI)
  assume "currentTokens (fst (ws_message n now ws data st)) \<noteq> currentTokens st
      \<or> currentTokens (fst (tokens_post n now data st)) \<noteq> currentTokens st"
  then show "\<exists>m p ts. data = Parsed m \<and> m_type m = Some ''sync'' \<and> m_payload m = Some p
          \<and> p_tokens p = Some ts"
    using ws_message_tokens_changed tokens_post_tokens_changed by blast
next
  assume a: "data = Parsed m \<and> m_type m = Some ''sync'' \<and> m_payload m = Some p \<and> p_tokens p = Some ts"
  then have s: "store_tokens m st = Some (st \<lparr> currentTokens := ts \<rparr>)"
    by (simp add: store_tokens_sync)
  from a have d: "data = Parsed m" by simp
  show "currentTokens (fst (ws_message n now ws data st)) = ts"
    by (simp add: d ws_message_relayed [OF s] broadcastToAll_tokens)
  show "currentTokens (fst (tokens_post n now data st)) = ts"
    by (simp add: d tokens_post_relayed [OF s] broadcastToAll_tokens)
next
  assume a: "data = Parsed m
        \<and> (m_type m = Some ''update'' \<or> m_type m = Some ''create'' \<or> m_type m = Some ''delete'')"
  then have "m_type m \<noteq> Some ''sync''" using not_sync by blast
  then have s: "store_tokens m st = Some st" by (rule store_tokens_other)
  from a have d: "data = Parsed m" by simp
  show w: "ws_message n now ws data st = broadcastToAll n (stamp ''websocket'' now m) st"
    by (simp only: d ws_message_relayed [OF s])
  show p: "fst (tokens_post n now data st) = fst (broadcastToAll n (stamp ''figma'' now m) st)"
    by (simp only: d tokens_post_relayed [OF s] fst_conv)
  show "sends (snd (tokens_post n now data st)) = snd (broadcastToAll n (stamp ''figma'' now m) st)"
    by (simp only: d tokens_post_relayed [OF s] snd_conv sends_append_respond sends_broadcast)
  show "currentTokens (fst (ws_message n now ws data st)) = currentTokens st"
    by (simp only: w broadcastToAll_tokens)
  show "currentTokens (fst (tokens_post n now data st)) = currentTokens st"
    by (simp only: p broadcastToAll_tokens)
  show "sseClients (fst (ws_message n now ws data st)) = filter (\<lambda>c. \<not> write_throws n c) (sseClients st)"
    by (simp add: w fst_broadcast)
  show "wsClients (fst (ws_message n now ws data st))
            = filter (\<lambda>c. \<not> (readyState n c = 1 \<and> send_throws n c)) (wsClients st)"
    by (simp add: w fst_broadcast)
  show "sseClients (fst (tokens_post n now data st)) = filter (\<lambda>c. \<not> write_throws n c) (sseClients st)"
    by (simp add: p fst_broadcast)
  show "wsClients (fst (tokens_post n now data st))
            = filter (\<lambda>c. \<not> (readyState n c = 1 \<and> send_throws n c)) (wsClients st)"
    by (simp add: p fst_broadcast)
  {
    assume q: "list_all (\<lambda>c. \<not> write_throws n c) (sseClients st)
             \<and> list_all (\<lambda>c. \<not> (readyState n c = 1 \<and> send_throws n c)) (wsClients st)"
    then have f1: "filter (\<lambda>c. \<not> write_throws n c) (sseClients st) = sseClients st"
      and f2: "filter (\<lambda>c. \<not> (readyState n c = 1 \<and> send_throws n c)) (wsClients st) = wsClients st"
      by (simp_all add: list_all_iff)
    show "fst (ws_message n now ws data st) = st"
      by (simp only: w fst_broadcast f1 f2) simp
    show "fst (tokens_post n now data st) = st"
      by (simp only: p fst_broadcast f1 f2) simp
  }
  show "\<exists>t a b c. snd (tokens_get later (fst (ws_message n now ws data st)))
                       = [Respond 200 (Snapshot (currentTokens st) t a b c)]"
    by (simp add: tokens_get_def w broadcastToAll_tokens)
  show "\<exists>t a b c. snd (tokens_get later (fst (tokens_post n now data st)))
                       = [Respond 200 (Snapshot (currentTokens st) t a b c)]"
    by (simp add: tokens_get_def p broadcastToAll_tokens)
qed

theorem inbound_frame_witness:
  "currentTokens (fst (ws_message net_ok 9 2 (Parsed sync_msg) relay_two)) = [tok ''c1'' ''#0066CC'']
   \<and> currentTokens (fst (tokens_post net_ok 9 (Parsed sync_msg) relay_two)) = [tok ''c1'' ''#0066CC'']
   \<and> fst (ws_message net_ok 9 2 (Parsed update_msg) relay_mixed) = relay_mixed
   \<and> fst (tokens_post net_ok 9 (Parsed update_msg) relay_mixed) = relay_mixed
   \<and> sseClients (fst (ws_message net_failing 9 2 (Parsed update_msg) relay_mixed)) = [5]
   \<and> wsClients (fst (tokens_post net_failing 9 (Parsed update_msg) relay_mixed)) = [2, 4]"
  using inbound_frame [of net_ok 9 2 "Parsed sync_msg" relay_two sync_msg
          "\<lparr> p_tokens = Some [tok ''c1'' ''#0066CC''], p_token = None, p_tokenId = None \<rparr>"
          "[tok ''c1'' ''#0066CC'']" 10]
        inbound_frame [of net_ok 9 2 "Parsed update_msg" relay_mixed update_msg
          "\<lparr> p_tokens = None, p_token = Some (tok ''c1'' ''#0066CC''), p_tokenId = None \<rparr>" "[]" 10]
        inbound_frame [of net_failing 9 2 "Parsed update_msg" relay_mixed update_msg
          "\<lparr> p_tokens = None, p_token = Some (tok ''c1'' ''#0066CC''), p_tokenId = None \<rparr>" "[]" 10]
  by (simp add: sync_msg_def update_msg_def relay_mixed_def relay_two_def net_ok_def net_failing_def
      broadcastToAll_eq)

text \<open>The claim as stated keeps both client sets under an \<^verbatim>\<open>update\<close>. When the write
  to stream client 1 throws, the broadcast of the update removes it.\<close>

theorem update_drops_failed_client_counterexample:
  "m_type update_msg = Some ''update''
   \<and> sseClients relay_two = [1]
   \<and> sseClients (fst (ws_message net_failing 5 2 (Parsed update_msg) relay_two)) = []"
  by (simp add: ws_message_def relay_inbound_def store_tokens_def update_msg_def
      broadcastToAll_eq relay_two_def net_failing_def)

subsection \<open>Malformed requests\<close>



lemma sends_append: "sends (a @ b) = sends a @ sends b"
  by (simp add: sends_def)





subsection \<open>Connections\<close>

lemma relay_step_sends:
  "\<not> is_connection e \<Longrightarrow>
     sends (snd (relay_step n now e st)) = [] \<or>
     (\<exists>src m. sends (snd (relay_step n now e st))
        = map (\<lambda>x. SseWrite x (stamp src now m)) (sseClients st)
          @ map (\<lambda>x. WsSend x (stamp src now m)) (filter (\<lambda>x. readyState n x = 1) (wsClients st)))"
proof (cases e)
  case (WsMessage ws data)
  from ws_message_sends [of n now ws data st] show ?thesis
  proof
    assume "sends (snd (ws_message n now ws data st)) = []"
    with WsMessage show ?thesis by simp
  next
    assume "\<exists>m st1. data = Parsed m \<and> store_tokens m st = Some st1 \<and>
      ws_message n now ws data st = broadcastToAll n (stamp ''websocket'' now m) st1"
    then obtain m st1 where h: "store_tokens m st = Some st1"
      "ws_message n now ws data st = broadcastToAll n (stamp ''websocket'' now m) st1" by blast
    have "sends (snd (relay_step n now e st))
        = map (\<lambda>x. SseWrite x (stamp ''websocket'' now m)) (sseClients st)
          @ map (\<lambda>x. WsSend x (stamp ''websocket'' now m))
              (filter (\<lambda>x. readyState n x = 1) (wsClients st))"
    proof -
      have "sends (snd (relay_step n now e st)) = snd (broadcastToAll n (stamp ''websocket'' now m) st1)"
        by (simp only: WsMessage relay_step.simps h(2) sends_broadcast)
      then show ?thesis
        using store_tokens_clients [OF h(1)] by (simp only: fanout_of)
    qed
    then show ?thesis by blast
  qed
next
  case (TokensPost body)
  from tokens_post_sends [of n now body st] show ?thesis
  proof
    assume "sends (snd (tokens_post n now body st)) = []"
    with TokensPost show ?thesis by simp
  next
    assume "\<exists>m st1. body = Parsed m \<and> store_tokens m st = Some st1 \<and>
      fst (tokens_post n now body st) = fst (broadcastToAll n (stamp ''figma'' now m) st1) \<and>
      sends (snd (tokens_post n now body st)) = snd (broadcastToAll n (stamp ''figma'' now m) st1)"
    then obtain m st1 where h: "store_tokens m st = Some st1"
      "sends (snd (tokens_post n now body st)) = snd (broadcastToAll n (stamp ''figma'' now m) st1)"
      by blast
    have "sends (snd (relay_step n now e st))
        = map (\<lambda>x. SseWrite x (stamp ''figma'' now m)) (sseClients st)
          @ map (\<lambda>x. WsSend x (stamp ''figma'' now m))
              (filter (\<lambda>x. readyState n x = 1) (wsClients st))"
    proof -
      have "sends (snd (relay_step n now e st)) = snd (broadcastToAll n (stamp ''figma'' now m) st1)"
        by (simp only: TokensPost relay_step.simps h(2))
      then show ?thesis
        using store_tokens_clients [OF h(1)] by (simp only: fanout_of)
    qed
    then show ?thesis by blast
  qed
qed (simp_all add: sends_def tokens_get_def tokens_options_def)

text \<open>
  C2 (as amended). On a new connection of either transport, when \<^verbatim>\<open>currentTokens\<close> is
  non-empty the client is sent one object, to it alone:
  \<^verbatim>\<open>{ type: 'initial_sync', tokens: currentTokens, timestamp: now }\<close>, with the tokens at
  top level and no \<^verbatim>\<open>payload\<close>; nothing is sent when there are no tokens. The client is
  added to its set, except a stream client whose catch-up write throws. For every other
  event in a state, what the relay sends to clients is nothing or one stamped message to
  every stream client and every OPEN socket of that state: there is no other directed
  send.
\<close>

theorem connection_catch_up:
  "ws_connection now c st =
     (st \<lparr> wsClients := set_add c (wsClients st) \<rparr>,
      if currentTokens st \<noteq> []
      then [WsSend c \<lparr> m_type = Some ''initial_sync'', m_payload = None, m_source = None,
                       m_timestamp = Some now, m_tokens = Some (currentTokens st) \<rparr>]
      else [])
   \<and> sse_connection n now c st =
     (if currentTokens st \<noteq> [] \<and> write_throws n c then st
      else st \<lparr> sseClients := set_add c (sseClients st) \<rparr>,
      if currentTokens st \<noteq> []
      then [SseWrite c \<lparr> m_type = Some ''initial_sync'', m_payload = None, m_source = None,
                         m_timestamp = Some now, m_tokens = Some (currentTokens st) \<rparr>]
      else [])
   \<and> (\<not> is_connection e \<longrightarrow>
        sends (snd (relay_step n now e st)) = [] \<or>
        (\<exists>src m. sends (snd (relay_step n now e st))
           = map (\<lambda>x. SseWrite x (stamp src now m)) (sseClients st)
             @ map (\<lambda>x. WsSend x (stamp src now m))
                 (filter (\<lambda>x. readyState n x = 1) (wsClients st))))"
proof (intro conjI impI)
  show "ws_connection now c st =
     (st \<lparr> wsClients := set_add c (wsClients st) \<rparr>,
      if currentTokens st \<noteq> []
      then [WsSend c \<lparr> m_type = Some ''initial_sync'', m_payload = None, m_source = None,
                       m_timestamp = Some now, m_tokens = Some (currentTokens st) \<rparr>]
      else [])"
    by (simp add: ws_connection_def initial_sync_def Let_def)
  show "sse_connection n now c st =
     (if currentTokens st \<noteq> [] \<and> write_throws n c then st
      else st \<lparr> sseClients := set_add c (sseClients st) \<rparr>,
      if currentTokens st \<noteq> []
      then [SseWrite c \<lparr> m_type = Some ''initial_sync'', m_payload = None, m_source = None,
                         m_timestamp = Some now, m_tokens = Some (currentTokens st) \<rparr>]
      else [])"
    by (simp add: sse_connection_def initial_sync_def)
next
  assume "\<not> is_connection e"
  then show "sends (snd (relay_step n now e st)) = [] \<or>
        (\<exists>src m. sends (snd (relay_step n now e st))
           = map (\<lambda>x. SseWrite x (stamp src now m)) (sseClients st)
             @ map (\<lambda>x. WsSend x (stamp src now m))
                 (filter (\<lambda>x. readyState n x = 1) (wsClients st)))"
    by (rule relay_step_sends)
qed

theorem connection_catch_up_witness:
  "snd (ws_connection 7 1 relay_synced)
     = [WsSend 1 \<lparr> m_type = Some ''initial_sync'', m_payload = None, m_source = None,
                   m_timestamp = Some 7, m_tokens = Some [tok ''c1'' ''#0066CC''] \<rparr>]
   \<and> sse_connection net_ok 7 1 relay_init
       = (\<lparr> sseClients = [1], wsClients = [], currentTokens = [] \<rparr>, [])
   \<and> sse_connection net_ok 7 6 relay_synced
       = (\<lparr> sseClients = [6], wsClients = [], currentTokens = [tok ''c1'' ''#0066CC''] \<rparr>,
          [SseWrite 6 \<lparr> m_type = Some ''initial_sync'', m_payload = None, m_source = None,
                        m_timestamp = Some 7, m_tokens = Some [tok ''c1'' ''#0066CC''] \<rparr>])
   \<and> write_throws net_failing 1
   \<and> sse_connection net_failing 7 1 relay_synced
       = (relay_synced,
          [SseWrite 1 \<lparr> m_type = Some ''initial_sync'', m_payload = None, m_source = None,
                        m_timestamp = Some 7, m_tokens = Some [tok ''c1'' ''#0066CC''] \<rparr>])
   \<and> sends (snd (relay_step net_ok 7 TokensGet relay_synced)) = []"
  using connection_catch_up [where now = 7 and c = 1 and st = relay_synced and e = TokensGet and n = net_ok]
        connection_catch_up [where now = 7 and c = 1 and st = relay_init and e = TokensGet and n = net_ok]
        connection_catch_up [where now = 7 and c = 6 and st = relay_synced and e = TokensGet and n = net_ok]
        connection_catch_up [where now = 7 and c = 1 and st = relay_synced and e = TokensGet and n = net_failing]
  by (auto simp add: relay_synced_def relay_init_def net_ok_def net_failing_def set_add_def
      sends_def tokens_get_def)

text \<open>The claim as stated has the catch-up be a \<^verbatim>\<open>sync\<close> message with the tokens in
  \<^verbatim>\<open>payload.tokens\<close>. With one token stored, both transports send an object whose type
  is \<^verbatim>\<open>initial_sync\<close> and which has no payload.\<close>

theorem catch_up_not_sync_counterexample:
  "currentTokens relay_synced = [tok ''c1'' ''#0066CC'']
   \<and> snd (ws_connection 7 1 relay_synced)
     = [WsSend 1 \<lparr> m_type = Some ''initial_sync'', m_payload = None, m_source = None,
                   m_timestamp = Some 7, m_tokens = Some [tok ''c1'' ''#0066CC''] \<rparr>]
   \<and> snd (sse_connection net_ok 7 1 relay_synced)
     = [SseWrite 1 \<lparr> m_type = Some ''initial_sync'', m_payload = None, m_source = None,
                     m_timestamp = Some 7, m_tokens = Some [tok ''c1'' ''#0066CC''] \<rparr>]"
  by (simp add: ws_connection_def sse_connection_def initial_sync_def relay_synced_def net_ok_def
      Let_def)

subsection \<open>The client sets hold no duplicates\<close>

text \<open>The lists that stand for the two \<^verbatim>\<open>Set\<close>s stay free of duplicates under every
  event, so that their length is the \<^verbatim>\<open>size\<close> the relay reports.\<close>

lemma set_add_distinct: "distinct xs \<Longrightarrow> distinct (set_add x xs)"
  by (simp add: set_add_def)

lemma set_delete_distinct: "distinct xs \<Longrightarrow> distinct (set_delete x xs)"
  by (simp add: set_delete_def distinct_removeAll)

lemma broadcast_distinct:
  "distinct (sseClients st) \<and> distinct (wsClients st) \<Longrightarrow>
     distinct (sseClients (fst (broadcastToAll n d st))) \<and> distinct (wsClients (fst (broadcastToAll n d st)))"
  by (simp add: fst_broadcast)

lemma relay_inbound_distinct:
  "relay_inbound src n now data st = Some r \<Longrightarrow>
     distinct (sseClients st) \<and> distinct (wsClients st) \<Longrightarrow>
     distinct (sseClients (fst r)) \<and> distinct (wsClients (fst r))"
  using relay_inbound_cases [of src n now data st] store_tokens_clients broadcast_distinct
  by (metis option.distinct(1) option.inject)

lemma relay_step_distinct:
  assumes "distinct (sseClients st) \<and> distinct (wsClients st)"
  shows "distinct (sseClients (fst (relay_step n now e st)))
       \<and> distinct (wsClients (fst (relay_step n now e st)))"
proof (cases e)
  case (WsMessage ws data)
  show ?thesis
  proof (cases "relay_inbound ''websocket'' n now data st")
    case None
    with assms WsMessage show ?thesis by (simp add: ws_message_def)
  next
    case (Some r)
    with relay_inbound_distinct [OF Some assms] WsMessage show ?thesis by (simp add: ws_message_def)
  qed
next
  case (TokensPost body)
  show ?thesis
  proof (cases "relay_inbound ''figma'' n now body st")
    case None
    with assms TokensPost show ?thesis by (simp add: tokens_post_def)
  next
    case (Some r)
    with relay_inbound_distinct [OF Some assms] TokensPost show ?thesis by (simp add: tokens_post_def)
  qed
qed (use assms in \<open>simp_all add: ws_connection_def sse_connection_def ws_close_def sse_close_def
      tokens_get_def tokens_options_def set_add_distinct set_delete_distinct Let_def\<close>)

subsection \<open>Client merge and throttle\<close>

lemma startsWith_prefix: "startsWith s k \<longleftrightarrow> prefix k s"
  by (induction s k rule: startsWith.induct) auto

lemma includes_sublist: "includes_js s k \<longleftrightarrow> sublist k s"
proof (induction s)
  case Nil
  then show ?case by (cases k) auto
next
  case (Cons c cs)
  then show ?case by (simp add: startsWith_prefix sublist_Cons_right)
qed

lemma isFigmaToken_iff:
  "isFigmaToken ids t \<longleftrightarrow>
     prefix ''S:'' (tw_id t) \<or> prefix ''T:'' (tw_id t) \<or> prefix ''debug-'' (tw_id t)
     \<or> sublist ''VariableID:'' (tw_id t) \<or> tw_id t \<in> set ids"
  by (simp only: isFigmaToken_def startsWith_prefix includes_sublist)

lemma converted_ids: "map tw_id (map convertDesignToken ts) = map token_id ts"
  by (simp add: convertDesignToken_def)

lemma mergeTokens_eq:
  "mergeTokens (map convertDesignToken ts) prev =
     filter (\<lambda>t. \<not> prefix ''S:'' (tw_id t) \<and> \<not> prefix ''T:'' (tw_id t)
                \<and> \<not> prefix ''debug-'' (tw_id t) \<and> \<not> sublist ''VariableID:'' (tw_id t)
                \<and> tw_id t \<notin> token_id ` set ts) prev
     @ map convertDesignToken ts"
proof -
  have "set (remdups (map tw_id (map convertDesignToken ts))) = token_id ` set ts"
    by (simp only: converted_ids set_remdups set_map)
  then show ?thesis
    unfolding mergeTokens_def Let_def isFigmaToken_iff by simp
qed

lemma typeMapping_table:
  "typeMapping k =
     map_of [(''color'', color), (''typography'', typography), (''dimension'', dimension),
             (''fontFamily'', fontFamily), (''fontWeight'', fontWeight), (''number'', number),
             (''string'', fontFamily), (''boolean'', number)] k"
  by (simp add: typeMapping_def)

lemma convertDesignToken_fields:
  "convertDesignToken d =
     \<lparr> tw_id = token_id d, tw_name = token_name d,
       tw_type =
         (case map_of [(''color'', color), (''typography'', typography), (''dimension'', dimension),
                       (''fontFamily'', fontFamily), (''fontWeight'', fontWeight), (''number'', number),
                       (''string'', fontFamily), (''boolean'', number)] (token_type d) of
            Some t \<Rightarrow> Mapped t
          | None \<Rightarrow>
              (if token_type d \<in> set object_prototype_members
               then PrototypeMember (token_type d) else Mapped dimension)),
       tw_value = token_value d, tw_description = token_description d \<rparr>"
  unfolding convertDesignToken_def typeMapping_table by (rule refl)

text \<open>
  C5. For every sync the handler applies (a message of type \<^verbatim>\<open>sync\<close> with
  \<^verbatim>\<open>payload.tokens\<close> that it does not throttle) and every previous token list, the new
  list is: the previous tokens whose id does not start with \<^verbatim>\<open>S:\<close>, \<^verbatim>\<open>T:\<close> or
  \<^verbatim>\<open>debug-\<close>, does not contain \<^verbatim>\<open>VariableID:\<close> and is not the id of an incoming
  token, in their order, followed by the converted incoming tokens. The conversion of an
  incoming token keeps its id, name, value and description and gives it the type the
  table assigns to its type name: the six token types of the same name, \<^verbatim>\<open>string\<close> as
  font family, \<^verbatim>\<open>boolean\<close> as number, a member of \<^verbatim>\<open>Object.prototype\<close> as that
  member, anything else as dimension. A throttled sync leaves the token list as it is.
\<close>

theorem sync_merge:
  "sync_tokens m = Some ts \<longrightarrow>
     (\<not> now - seen_lastSyncTime env < 1000 \<longrightarrow>
        tokens (fst (ws_onmessage env now (Parsed m) st)) =
          filter (\<lambda>t. \<not> prefix ''S:'' (tw_id t) \<and> \<not> prefix ''T:'' (tw_id t)
                     \<and> \<not> prefix ''debug-'' (tw_id t) \<and> \<not> sublist ''VariableID:'' (tw_id t)
                     \<and> tw_id t \<notin> token_id ` set ts) (tokens st)
          @ map (\<lambda>d.
                  \<lparr> tw_id = token_id d, tw_name = token_name d,
                    tw_type =
                      (case map_of [(''color'', color), (''typography'', typography),
                                    (''dimension'', dimension), (''fontFamily'', fontFamily),
                                    (''fontWeight'', fontWeight), (''number'', number),
                                    (''string'', fontFamily), (''boolean'', number)]
                              (token_type d) of
                         Some t \<Rightarrow> Mapped t
                       | None \<Rightarrow>
                           (if token_type d \<in> set [''constructor'', ''hasOwnProperty'',
                                 ''isPrototypeOf'', ''propertyIsEnumerable'', ''toLocaleString'',
                                 ''toString'', ''valueOf'', ''__defineGetter__'',
                                 ''__defineSetter__'', ''__lookupGetter__'', ''__lookupSetter__'',
                                 ''__proto__'']
                            then PrototypeMember (token_type d) else Mapped dimension)),
                    tw_value = token_value d, tw_description = token_description d \<rparr>) ts)
     \<and> (now - seen_lastSyncTime env < 1000 \<longrightarrow>
        tokens (fst (ws_onmessage env now (Parsed m) st)) = tokens st)"
proof -
  have conv: "convertDesignToken =
     (\<lambda>d. \<lparr> tw_id = token_id d, tw_name = token_name d,
             tw_type =
               (case map_of [(''color'', color), (''typography'', typography),
                             (''dimension'', dimension), (''fontFamily'', fontFamily),
                             (''fontWeight'', fontWeight), (''number'', number),
                             (''string'', fontFamily), (''boolean'', number)]
                       (token_type d) of
                  Some t \<Rightarrow> Mapped t
                | None \<Rightarrow>
                    (if token_type d \<in> set [''constructor'', ''hasOwnProperty'',
                          ''isPrototypeOf'', ''propertyIsEnumerable'', ''toLocaleString'',
                          ''toString'', ''valueOf'', ''__defineGetter__'',
                          ''__defineSetter__'', ''__lookupGetter__'', ''__lookupSetter__'',
                          ''__proto__'']
                     then PrototypeMember (token_type d) else Mapped dimension)),
             tw_value = token_value d, tw_description = token_description d \<rparr>)"
    by (rule ext) (simp only: convertDesignToken_fields object_prototype_members_def)
  have applied: "tokens (fst (ws_onmessage env now (Parsed m) st)) =
          filter (\<lambda>t. \<not> prefix ''S:'' (tw_id t) \<and> \<not> prefix ''T:'' (tw_id t)
                     \<and> \<not> prefix ''debug-'' (tw_id t) \<and> \<not> sublist ''VariableID:'' (tw_id t)
                     \<and> tw_id t \<notin> token_id ` set ts) (tokens st)
          @ map convertDesignToken ts"
    if "sync_tokens m = Some ts" "\<not> now - seen_lastSyncTime env < 1000"
    using that by (simp add: ws_onmessage_def Let_def mergeTokens_eq)
  have throttled: "tokens (fst (ws_onmessage env now (Parsed m) st)) = tokens st"
    if "sync_tokens m = Some ts" "now - seen_lastSyncTime env < 1000"
    using that by (simp add: ws_onmessage_def Let_def)
  from applied throttled show ?thesis
    unfolding conv by blast
qed

theorem sync_merge_witness:
  "sync_tokens sync_incoming = Some incoming_tokens
   \<and> \<not> 1700000000000 - seen_lastSyncTime mounted_env < 1000
   \<and> tokens (fst (ws_onmessage mounted_env 1700000000000 (Parsed sync_incoming) hook_with_tokens))
       = [tw ''manual-1'', tw ''9f1c'',
          \<lparr> tw_id = ''c1'', tw_name = ''Brand/Primary'', tw_type = Mapped color,
            tw_value = VString ''#0066CC'', tw_description = None \<rparr>,
          \<lparr> tw_id = ''S:9'', tw_name = ''Font/Body'', tw_type = Mapped fontFamily,
            tw_value = VString ''Inter'', tw_description = Some ''body font'' \<rparr>,
          \<lparr> tw_id = ''VariableID:1:2'', tw_name = ''Layout/gap'', tw_type = Mapped dimension,
            tw_value = VNumber 8, tw_description = None \<rparr>,
          \<lparr> tw_id = ''T:3'', tw_name = ''Odd/one'', tw_type = PrototypeMember ''toString'',
            tw_value = VObject [(''fontSize'', VString ''32px'')], tw_description = None \<rparr>]"
  using sync_merge [of sync_incoming incoming_tokens 1700000000000 mounted_env hook_with_tokens]
  by (simp add: sync_tokens_def sync_incoming_def incoming_tokens_def mounted_env_def effect_env_def
      useTokens_initial_def hook_with_tokens_def tw_def tok_def sublist_code)

text \<open>
  The throttle compares \<^verbatim>\<open>now\<close> with the \<^verbatim>\<open>lastSyncTime\<close> its handler closed
  over, which for the mounted hook is the initial 0 and not the time of the last applied
  sync. Every sync that arrives at a clock value of 1000 or more is applied.
\<close>

lemma mounted_handler_never_throttles:
  "1000 \<le> now \<Longrightarrow> sync_tokens m = Some ts \<Longrightarrow>
     snd (ws_onmessage mounted_env now (Parsed m) st) = [SyncApplied (length ts)]
     \<and> lastSyncTime (fst (ws_onmessage mounted_env now (Parsed m) st)) = now"
  by (simp add: ws_onmessage_def mounted_env_def effect_env_def useTokens_initial_def Let_def)

text \<open>
  C4, at two identical sync messages 100 ms apart: both are applied, although the first
  has set \<^verbatim>\<open>lastSyncTime\<close> to its arrival time.
\<close>

theorem throttle_reads_stale_lastSyncTime:
  "snd (ws_onmessages mounted_env
          [(1700000000000, Parsed sync_msg), (1700000000100, Parsed sync_msg)] useTokens_initial)
     = [SyncApplied 1, SyncApplied 1]
   \<and> lastSyncTime (fst (ws_onmessage mounted_env 1700000000000 (Parsed sync_msg) useTokens_initial))
       = 1700000000000
   \<and> lastSyncTime (fst (ws_onmessages mounted_env
          [(1700000000000, Parsed sync_msg), (1700000000100, Parsed sync_msg)] useTokens_initial))
       = 1700000000100"
  by (simp add: ws_onmessage_def mounted_env_def effect_env_def useTokens_initial_def Let_def
      sync_tokens_def sync_msg_def)

subsection \<open>Reconnection\<close>

lemma closes_attempts:
  "reconnectAttempts c = 0 \<Longrightarrow> reconnectAttempts (fst (closes k c)) = min k maxReconnectAttempts"
proof (induction k)
  case 0
  then show ?case by simp
next
  case (Suc k)
  then show ?case by (auto simp: attemptReconnect_def min_def)
qed

lemma closes_state:
  "fst (closes k c) = c \<lparr> reconnectAttempts := reconnectAttempts (fst (closes k c)) \<rparr>"
proof (induction k)
  case 0
  then show ?case by simp
next
  case (Suc k)
  then show ?case by (auto simp: attemptReconnect_def)
qed

lemma closes_effects:
  assumes "reconnectAttempts c = 0"
  shows "snd (closes (Suc k) c) =
           (if k < maxReconnectAttempts then [ScheduleConnect reconnectInterval]
            else [MaxAttemptsReached])"
  using closes_attempts [OF assms, of k] by (auto simp: attemptReconnect_def min_def)

text \<open>
  C7 (as amended). Starting from an attempt counter of 0, after K close events in a row:
  for K from 1 to the cap of 5, the last close has armed the reconnect timer and the
  counter is K (Retrying); for every K above the cap, the last close has armed nothing,
  only logged that the maximum is reached, and the counter stays at the cap (GaveUp). An
  open event sets the counter to 0 in every state.
\<close>

theorem reconnect_supervisor:
  "(reconnectAttempts c = 0 \<longrightarrow>
      (1 \<le> k \<and> k \<le> maxReconnectAttempts \<longrightarrow>
         closes k c = (c \<lparr> reconnectAttempts := k \<rparr>, [ScheduleConnect reconnectInterval]))
      \<and> (maxReconnectAttempts < k \<longrightarrow>
         closes k c = (c \<lparr> reconnectAttempts := maxReconnectAttempts \<rparr>, [MaxAttemptsReached])))
   \<and> on_socket_event OnOpen c' = (c' \<lparr> reconnectAttempts := 0 \<rparr>, [Resolve])"
proof (intro impI conjI)
  show "on_socket_event OnOpen c' = (c' \<lparr> reconnectAttempts := 0 \<rparr>, [Resolve])" by simp
next
  assume z: "reconnectAttempts c = 0"
  {
    assume k: "1 \<le> k \<and> k \<le> maxReconnectAttempts"
    then obtain j where j: "k = Suc j" by (cases k) auto
    have "fst (closes k c) = c \<lparr> reconnectAttempts := k \<rparr>"
      using closes_state [of k c] closes_attempts [OF z, of k] k by (simp add: min_def)
    moreover have "snd (closes k c) = [ScheduleConnect reconnectInterval]"
      using closes_effects [OF z, of j] k j by simp
    ultimately show "closes k c = (c \<lparr> reconnectAttempts := k \<rparr>, [ScheduleConnect reconnectInterval])"
      by (simp add: prod_eq_iff)
  }
  {
    assume k: "maxReconnectAttempts < k"
    then obtain j where j: "k = Suc j" by (cases k) auto
    have "fst (closes k c) = c \<lparr> reconnectAttempts := maxReconnectAttempts \<rparr>"
      using closes_state [of k c] closes_attempts [OF z, of k] k by (simp add: min_def)
    moreover have "snd (closes k c) = [MaxAttemptsReached]"
      using closes_effects [OF z, of j] k j by simp
    ultimately show "closes k c = (c \<lparr> reconnectAttempts := maxReconnectAttempts \<rparr>, [MaxAttemptsReached])"
      by (simp add: prod_eq_iff)
  }
qed

theorem reconnect_supervisor_witness:
  "reconnectAttempts new_WebSocketClient = 0
   \<and> closes 3 new_WebSocketClient = (\<lparr> reconnectAttempts = 3 \<rparr>, [ScheduleConnect 5000])
   \<and> closes 5 new_WebSocketClient = (\<lparr> reconnectAttempts = 5 \<rparr>, [ScheduleConnect 5000])
   \<and> closes 6 new_WebSocketClient = (\<lparr> reconnectAttempts = 5 \<rparr>, [MaxAttemptsReached])
   \<and> closes 9 new_WebSocketClient = (\<lparr> reconnectAttempts = 5 \<rparr>, [MaxAttemptsReached])
   \<and> on_socket_event OnOpen \<lparr> reconnectAttempts = 5 \<rparr> = (\<lparr> reconnectAttempts = 0 \<rparr>, [Resolve])"
  using reconnect_supervisor [of new_WebSocketClient 3 "\<lparr> reconnectAttempts = 5 \<rparr>"]
        reconnect_supervisor [of new_WebSocketClient 5 "\<lparr> reconnectAttempts = 5 \<rparr>"]
        reconnect_supervisor [of new_WebSocketClient 6 "\<lparr> reconnectAttempts = 5 \<rparr>"]
        reconnect_supervisor [of new_WebSocketClient 9 "\<lparr> reconnectAttempts = 5 \<rparr>"]
  by (simp add: new_WebSocketClient_def maxReconnectAttempts_def reconnectInterval_def)

text \<open>The claim as stated gives up at K = cap. The fifth close still finds 4 < 5: it
  counts to 5 and arms the reconnect timer.\<close>

theorem retry_at_cap_counterexample:
  "maxReconnectAttempts = 5
   \<and> closes 5 new_WebSocketClient = (\<lparr> reconnectAttempts = 5 \<rparr>, [ScheduleConnect 5000])"
proof -
  have five: "(5::nat) = Suc (Suc (Suc (Suc (Suc 0))))" by simp
  have "closes (Suc (Suc (Suc (Suc (Suc 0))))) new_WebSocketClient
          = (\<lparr> reconnectAttempts = 5 \<rparr>, [ScheduleConnect reconnectInterval])"
    by (simp add: attemptReconnect_def new_WebSocketClient_def maxReconnectAttempts_def)
  then show ?thesis
    by (simp only: five [symmetric] reconnectInterval_def maxReconnectAttempts_def)
qed

subsection \<open>Poll consumer\<close>

lemma poll_try_dispatch:
  "poll_try hc now r = Some out \<Longrightarrow> Dispatch h msg \<in> set out \<Longrightarrow>
     h \<in> set (messageHandlers hc) \<and> (\<exists>ts. r = Response True (BodyData (Some ts)) \<and> ts \<noteq> [] \<and> msg = SyncMsg ts)"
  by (auto simp: poll_try_def split: fetch_result.splits poll_body.splits option.splits if_splits)

text \<open>
  C10. In a poll tick, a handler is called only when the client is connected, the
  response is ok and its \<^verbatim>\<open>tokens\<close> array is there and non-empty; it is then called
  with the \<^verbatim>\<open>sync\<close> message of exactly these tokens. An ok response with an empty
  array calls no handler and posts nothing: the tick only arms the next poll.
\<close>

theorem poll_dispatch_nonempty:
  "(Dispatch h msg \<in> set (pollForUpdates hc now r) \<longrightarrow>
      isConnected hc \<and> h \<in> set (messageHandlers hc)
      \<and> (\<exists>ts. r = Response True (BodyData (Some ts)) \<and> ts \<noteq> [] \<and> msg = SyncMsg ts))
   \<and> (isConnected hc \<longrightarrow>
        pollForUpdates hc now (Response True (BodyData (Some []))) = [SetTimeout 3000])
   \<and> (isConnected hc \<and> ts \<noteq> [] \<longrightarrow>
        pollForUpdates hc now (Response True (BodyData (Some ts)))
          = map (\<lambda>handler. Dispatch handler (SyncMsg ts)) (messageHandlers hc)
            @ [PostRealTimeUpdate ts now, SetTimeout 3000])"
proof -
  have a: "isConnected hc \<and> h \<in> set (messageHandlers hc)
      \<and> (\<exists>ts. r = Response True (BodyData (Some ts)) \<and> ts \<noteq> [] \<and> msg = SyncMsg ts)"
    if d: "Dispatch h msg \<in> set (pollForUpdates hc now r)"
  proof -
    from d have c: "isConnected hc" by (auto simp: pollForUpdates_def split: if_splits)
    from d c obtain out where o: "poll_try hc now r = Some out" "Dispatch h msg \<in> set out"
      by (auto simp: pollForUpdates_def split: option.splits)
    from poll_try_dispatch [OF o] c show ?thesis by simp
  qed
  have b: "pollForUpdates hc now (Response True (BodyData (Some []))) = [SetTimeout 3000]"
    if "isConnected hc"
    using that by (simp add: pollForUpdates_def poll_try_def)
  have c: "pollForUpdates hc now (Response True (BodyData (Some ts)))
          = map (\<lambda>handler. Dispatch handler (SyncMsg ts)) (messageHandlers hc)
            @ [PostRealTimeUpdate ts now, SetTimeout 3000]"
    if "isConnected hc \<and> ts \<noteq> []"
    using that by (simp add: pollForUpdates_def poll_try_def)
  from a b c show ?thesis by blast
qed

theorem poll_dispatch_nonempty_witness:
  "isConnected plugin_client
   \<and> pollForUpdates plugin_client 8 (Response True (BodyData (Some []))) = [SetTimeout 3000]
   \<and> pollForUpdates plugin_client 8 (Response True (BodyData (Some [tok ''c1'' ''#0066CC''])))
       = [Dispatch 0 (SyncMsg [tok ''c1'' ''#0066CC'']),
          PostRealTimeUpdate [tok ''c1'' ''#0066CC''] 8, SetTimeout 3000]
   \<and> Dispatch 0 (SyncMsg [tok ''c1'' ''#0066CC''])
       \<in> set (pollForUpdates plugin_client 8 (Response True (BodyData (Some [tok ''c1'' ''#0066CC'']))))"
  using poll_dispatch_nonempty [of 0 "SyncMsg [tok ''c1'' ''#0066CC'']" plugin_client 8
          "Response True (BodyData (Some [tok ''c1'' ''#0066CC'']))" "[tok ''c1'' ''#0066CC'']"]
  by (simp add: plugin_client_def)

end
